theory Spec2Isabelle
  imports Complex_Main "HOL-Library.Log_Nat" "HOL-Library.Multiset"
begin

text \<open>
  A model of the product router: \<^verbatim>\<open>POST /products\<close>, \<^verbatim>\<open>PUT /products/:id\<close>,
  \<^verbatim>\<open>DELETE /products/:id\<close> and \<^verbatim>\<open>GET /products\<close> of \<^verbatim>\<open>productRoutes.js\<close>, in the version
  that uploads images (the first router of the file; the second, older router reads a
  JSON body and has no image handling, and is not modelled). Each route is a function from
  the request, the answers of the outside world (\<open>env\<close>) and the state (\<open>world\<close>) to a
  response and the next state. The libraries the router calls are modelled from their
  documented behaviour: express-validator and validator.js (\<open>validateProduct\<close>), multer
  (\<open>upload_single\<close>), Mongoose (\<open>save_new\<close>, \<open>save_existing\<close>, \<open>findById\<close>,
  \<open>find_sorted\<close>) and the Cloudinary client (\<open>uploadToCloudinary\<close>, \<open>uploader_destroy\<close>).
  A stored \<^verbatim>\<open>_id\<close> is a natural number. The \<^verbatim>\<open>:id\<close> of a path is a string, which Mongoose
  casts to an \<^verbatim>\<open>ObjectId\<close> or refuses with a \<^verbatim>\<open>CastError\<close>; which strings it casts is the
  driver's business, so the routes take the cast as a parameter (\<open>cast\<close>). The database
  itself does not fail.
\<close>

section \<open>JavaScript numbers\<close>

text \<open>
  The handlers of \<^verbatim>\<open>productRoutes.js\<close> compute prices with JavaScript numbers: IEEE 754
  binary64 values. A finite double is modelled by the rational it denotes, and every
  arithmetic result is rounded to the nearest double by \<open>fl\<close> (ties to the even
  significand, overflow to an infinity, gradual underflow). The sign of zero is not
  modelled: \<open>-0\<close> and \<open>+0\<close> are both \<open>Fin 0\<close> (they are equal under \<^verbatim>\<open>==\<close> and
  \<^verbatim>\<open>>=\<close>, the only comparisons the program makes).
\<close>

datatype number = NaN | PInf | NInf | Fin rat

definition pow2 :: "int \<Rightarrow> rat" where
  "pow2 k = (if 0 \<le> k then 2 ^ nat k else 1 / 2 ^ nat (- k))"

definition pow10 :: "int \<Rightarrow> rat" where
  "pow10 k = (if 0 \<le> k then 10 ^ nat k else 1 / 10 ^ nat (- k))"

text \<open>\<open>ilog2 x\<close> is \<open>\<lfloor>log\<^sub>2 x\<rfloor>\<close> for a positive rational, from the bit lengths of its
  numerator and denominator.\<close>

definition ilog2 :: "rat \<Rightarrow> int" where
  "ilog2 x = (case quotient_of x of (p, q) \<Rightarrow>
     (let d = bitlen p - bitlen q in if pow2 d \<le> x then d else d - 1))"

definition round_even :: "rat \<Rightarrow> int" where
  "round_even x = (let f = \<lfloor>x\<rfloor>; d = x - of_int f in
     if d < 1 / 2 then f else if 1 / 2 < d then f + 1
     else if even f then f else f + 1)"

text \<open>Rounding a positive rational to binary64: 53 significant bits, least exponent
  \<open>-1022\<close>; \<open>None\<close> is overflow.\<close>

definition fl_pos :: "rat \<Rightarrow> rat option" where
  "fl_pos x = (let e = max (ilog2 x) (- 1022); n = round_even (x / pow2 (e - 52))
     in if 1023 < e \<or> (e = 1023 \<and> 2 ^ 53 \<le> n) then None
        else Some (of_int n * pow2 (e - 52)))"

definition fl :: "rat \<Rightarrow> number" where
  "fl x = (if x = 0 then Fin 0
     else if 0 < x then (case fl_pos x of None \<Rightarrow> PInf | Some y \<Rightarrow> Fin y)
     else (case fl_pos (- x) of None \<Rightarrow> NInf | Some y \<Rightarrow> Fin (- y)))"

fun sign :: "number \<Rightarrow> int" where
  "sign NaN = 0"
| "sign PInf = 1"
| "sign NInf = - 1"
| "sign (Fin r) = (if r < 0 then - 1 else if r = 0 then 0 else 1)"

text \<open>\<^verbatim>\<open>x * y\<close> and \<^verbatim>\<open>x + y\<close> on numbers.\<close>

fun num_mul :: "number \<Rightarrow> number \<Rightarrow> number" where
  "num_mul (Fin a) (Fin b) = fl (a * b)"
| "num_mul NaN y = NaN"
| "num_mul x NaN = NaN"
| "num_mul x y = (if sign x * sign y = 0 then NaN
                  else if 0 < sign x * sign y then PInf else NInf)"

fun num_add :: "number \<Rightarrow> number \<Rightarrow> number" where
  "num_add (Fin a) (Fin b) = fl (a + b)"
| "num_add NaN y = NaN"
| "num_add x NaN = NaN"
| "num_add PInf NInf = NaN"
| "num_add NInf PInf = NaN"
| "num_add PInf y = PInf"
| "num_add NInf y = NInf"
| "num_add x PInf = PInf"
| "num_add x NInf = NInf"

text \<open>\<^verbatim>\<open>x >= y\<close>: false as soon as one side is \<^verbatim>\<open>NaN\<close>.\<close>

fun num_ge :: "number \<Rightarrow> number \<Rightarrow> bool" where
  "num_ge NaN y = False"
| "num_ge x NaN = False"
| "num_ge (Fin a) (Fin b) = (b \<le> a)"
| "num_ge PInf y = True"
| "num_ge x NInf = True"
| "num_ge x y = False"

text \<open>
  \<^verbatim>\<open>x.toFixed(2)\<close> returns a string. For a finite \<open>x\<close> of magnitude below \<open>10\<^sup>2\<^sup>1\<close> it is
  the decimal numeral with two fraction digits of the integer \<open>n\<close> that makes
  \<open>n / 100\<close> closest to \<open>x\<close> (the larger \<open>n\<close> of two, taken on the magnitude): the
  model keeps \<open>n\<close>. Otherwise it is the number's own string (\<^verbatim>\<open>"NaN"\<close>,
  \<^verbatim>\<open>"Infinity"\<close>, \<^verbatim>\<open>"1e+21"\<close>), which \<^verbatim>\<open>parseFloat\<close> reads back as the same
  number: the model keeps the number.
\<close>

datatype numeral_string = Hundredths int | NumberString number

fun toFixed2 :: "number \<Rightarrow> numeral_string" where
  "toFixed2 (Fin r) =
     (if 10 ^ 21 \<le> \<bar>r\<bar> then NumberString (Fin r)
      else if r < 0 then Hundredths (- \<lfloor>(- r) * 100 + 1 / 2\<rfloor>)
      else Hundredths \<lfloor>r * 100 + 1 / 2\<rfloor>)"
| "toFixed2 x = NumberString x"

fun parseFloat_numeral :: "numeral_string \<Rightarrow> number" where
  "parseFloat_numeral (Hundredths n) = fl (of_int n / 100)"
| "parseFloat_numeral (NumberString x) = x"

text \<open>The rounding idiom of both handlers, \<^verbatim>\<open>parseFloat(x.toFixed(2))\<close>.\<close>

definition round2 :: "number \<Rightarrow> number" where
  "round2 x = parseFloat_numeral (toFixed2 x)"

text \<open>
  The Round2 of the specification's glossary, for comparison: a decimal value rounded to
  two fractional digits, half up, or half to even (the glossary leaves the choice to the
  implementer). Both are functions on exact values and are not part of the program.
\<close>

definition spec_round2 :: "rat \<Rightarrow> rat" where
  "spec_round2 x = of_int \<lfloor>x * 100 + 1 / 2\<rfloor> / 100"

definition spec_round2_even :: "rat \<Rightarrow> rat" where
  "spec_round2_even x = of_int (round_even (x * 100)) / 100"

text \<open>The numbers a price can be: a finite double that is not negative, or \<open>+\<infinity>\<close>.\<close>

fun nonneg :: "number \<Rightarrow> bool" where
  "nonneg (Fin r) = (0 \<le> r)"
| "nonneg PInf = True"
| "nonneg x = False"

section \<open>Strings\<close>

text \<open>
  A string is a list of code units below 256. The white space of JavaScript (what
  \<^verbatim>\<open>\s\<close> matches and what \<^verbatim>\<open>trim\<close> and \<^verbatim>\<open>parseFloat\<close> skip) among them is: space, tab,
  line feed, vertical tab, form feed, carriage return and the no-break space \<open>U+00A0\<close>.
\<close>

definition is_space :: "char \<Rightarrow> bool" where
  "is_space c \<longleftrightarrow>
     c \<in> set [CHR '' '', CHR 0x09, CHR 0x0A, CHR 0x0B, CHR 0x0C, CHR 0x0D, CHR 0xA0]"

definition is_digit :: "char \<Rightarrow> bool" where
  "is_digit c \<longleftrightarrow> c \<in> set ''0123456789''"

definition digit_val :: "char \<Rightarrow> nat" where
  "digit_val c = of_char c - 48"

definition digits_val :: "string \<Rightarrow> nat" where
  "digits_val ds = foldl (\<lambda>a c. 10 * a + digit_val c) 0 ds"

text \<open>\<^verbatim>\<open>String.prototype.trim\<close> and validator.js's \<^verbatim>\<open>trim\<close>.\<close>

definition trim :: "string \<Rightarrow> string" where
  "trim s = rev (dropWhile is_space (rev (dropWhile is_space s)))"

definition starts_with :: "string \<Rightarrow> string \<Rightarrow> bool" where
  "starts_with p s \<longleftrightarrow> take (length p) s = p"

text \<open>The exponent part \<^verbatim>\<open>[eE][+-]?[0-9]+\<close> at the head of a string, when there is one.\<close>

definition exponent_part :: "string \<Rightarrow> int" where
  "exponent_part s =
     (case s of [] \<Rightarrow> 0
      | c # cs \<Rightarrow>
          if c = CHR ''e'' \<or> c = CHR ''E'' then
            (case cs of [] \<Rightarrow> 0
             | d # ds \<Rightarrow>
                 if d = CHR ''-'' then
                   (if takeWhile is_digit ds = [] then 0
                    else - int (digits_val (takeWhile is_digit ds)))
                 else if d = CHR ''+'' then int (digits_val (takeWhile is_digit ds))
                 else int (digits_val (takeWhile is_digit cs)))
          else 0)"

text \<open>
  The global \<^verbatim>\<open>parseFloat\<close>: leading white space is skipped and the longest prefix
  that is a decimal literal is read; \<^verbatim>\<open>NaN\<close> when there is none.
\<close>

definition parse_unsigned :: "string \<Rightarrow> rat option" where
  "parse_unsigned s =
     (let ip = takeWhile is_digit s;
          r1 = dropWhile is_digit s;
          dot = (r1 \<noteq> [] \<and> hd r1 = CHR ''.'');
          fp = (if dot then takeWhile is_digit (tl r1) else []);
          r2 = (if dot then dropWhile is_digit (tl r1) else r1)
      in if ip = [] \<and> fp = [] then None
         else Some (of_nat (digits_val (ip @ fp)) * pow10 (exponent_part r2 - int (length fp))))"

definition parseFloat :: "string \<Rightarrow> number" where
  "parseFloat s =
     (let s1 = dropWhile is_space s;
          neg = (s1 \<noteq> [] \<and> hd s1 = CHR ''-'');
          s2 = (if s1 \<noteq> [] \<and> (hd s1 = CHR ''-'' \<or> hd s1 = CHR ''+'') then tl s1 else s1)
      in if starts_with ''Infinity'' s2 then (if neg then NInf else PInf)
         else (case parse_unsigned s2 of None \<Rightarrow> NaN
               | Some r \<Rightarrow> fl (if neg then - r else r)))"

text \<open>\<^verbatim>\<open>Math.floor(Math.random() * 1000000000000).toString()\<close>: the decimal numeral of a
  natural number.\<close>

definition digit_char :: "nat \<Rightarrow> char" where
  "digit_char d = ''0123456789'' ! d"

fun toString :: "nat \<Rightarrow> string" where
  "toString n = (if n < 10 then [digit_char n]
                 else toString (n div 10) @ [digit_char (n mod 10)])"

declare toString.simps [simp del]

text \<open>The numeric literal \<^verbatim>\<open>0.05\<close> of the handlers.\<close>

definition five_percent :: number where
  "five_percent = parseFloat ''0.05''"

section \<open>Request validation\<close>

text \<open>
  A request body is an object of string fields (the routes read a multipart form and
  compare \<^verbatim>\<open>gstEnabled === 'true'\<close>); an absent field is \<^verbatim>\<open>undefined\<close>, here \<open>None\<close>.
  The validators see each value as a string, \<^verbatim>\<open>undefined\<close> as the empty one.
\<close>

type_synonym body = "string \<rightharpoonup> string"

definition field :: "body \<Rightarrow> string \<Rightarrow> string" where
  "field b k = (case b k of None \<Rightarrow> [] | Some v \<Rightarrow> v)"

text \<open>
  validator.js's \<^verbatim>\<open>isFloat(str, {min: 0})\<close>: the string matches
  \<^verbatim>\<open>^[-+]?[0-9]*(\.[0-9]*)?([eE][+-]?[0-9]+)?$\<close>, is none of the five strings
  \<^verbatim>\<open>"" "." "," "-" "+"\<close>, and \<^verbatim>\<open>parseFloat(str.replace(',', '.')) >= 0\<close>.
\<close>

definition float_regex :: "string \<Rightarrow> bool" where
  "float_regex s =
     (let s1 = (case s of [] \<Rightarrow> []
                | c # cs \<Rightarrow> if c = CHR ''-'' \<or> c = CHR ''+'' then cs else s);
          s2 = dropWhile is_digit s1;
          s3 = (case s2 of [] \<Rightarrow> []
                | c # cs \<Rightarrow> if c = CHR ''.'' then dropWhile is_digit cs else s2)
      in case s3 of [] \<Rightarrow> True
         | c # cs \<Rightarrow>
             (c = CHR ''e'' \<or> c = CHR ''E'') \<and>
             (let ds = (case cs of [] \<Rightarrow> []
                        | d # ds' \<Rightarrow> if d = CHR ''+'' \<or> d = CHR ''-'' then ds' else cs)
              in ds \<noteq> [] \<and> list_all is_digit ds))"

fun replace_comma :: "string \<Rightarrow> string" where
  "replace_comma [] = []"
| "replace_comma (c # cs) = (if c = CHR '','' then CHR ''.'' # cs else c # replace_comma cs)"

definition isFloat_min0 :: "string \<Rightarrow> bool" where
  "isFloat_min0 str \<longleftrightarrow>
     \<not> (str = [] \<or> str = ''.'' \<or> str = '','' \<or> str = ''-'' \<or> str = ''+'') \<and>
     float_regex str \<and> num_ge (parseFloat (replace_comma str)) (Fin 0)"

text \<open>
  \<^verbatim>\<open>validateProduct\<close> followed by \<^verbatim>\<open>validationResult(req)\<close>: the list of
  \<open>(field, message)\<close> errors of the four chains, and the body after the \<^verbatim>\<open>trim\<close>
  sanitizer has written \<^verbatim>\<open>itemName\<close> back.
\<close>

definition validateProduct :: "body \<Rightarrow> (string \<times> string) list \<times> body" where
  "validateProduct b =
     (let name = trim (field b ''itemName'')
      in ((if name = [] then [(''itemName'', ''Item name is required'')] else []) @
          (if isFloat_min0 (field b ''sellPrice'') then []
           else [(''sellPrice'', ''Sell price must be a positive number'')]) @
          (if field b ''type'' \<in> set [''Veg'', ''Non-Veg''] then []
           else [(''type'', ''Invalid product type'')]) @
          (case b ''primaryUnit'' of None \<Rightarrow> []
           | Some u \<Rightarrow> if u \<in> set [''piece'', ''kg'', ''gram'', []] then []
                       else [(''primaryUnit'', ''Invalid value'')]),
          b(''itemName'' \<mapsto> name)))"

section \<open>File upload middleware\<close>

record upload_file =
  mimetype :: string
  buffer :: string

definition fileSize :: nat where
  "fileSize = 5 * 1024 * 1024"

definition fileFilter :: "upload_file \<Rightarrow> string + bool" where
  "fileFilter f = (if starts_with ''image/'' (mimetype f) then Inr True
                   else Inl ''Only image files are allowed'')"

text \<open>
  \<^verbatim>\<open>upload.single('image')\<close> on the \<^verbatim>\<open>image\<close> part of the form, when there is one:
  the filter decides on the media type, then the part is read into memory up to the
  size limit. \<open>Inl\<close> is the error handed to \<^verbatim>\<open>next\<close>; \<open>Inr\<close> is \<^verbatim>\<open>req.file\<close>.
\<close>

definition upload_single :: "upload_file option \<Rightarrow> string + upload_file option" where
  "upload_single part =
     (case part of None \<Rightarrow> Inr None
      | Some f \<Rightarrow>
          (case fileFilter f of Inl err \<Rightarrow> Inl err
           | Inr accept \<Rightarrow>
               if \<not> accept then Inr None
               else if fileSize < length (buffer f) then Inl ''File too large''
               else Inr (Some f)))"

section \<open>The Product model and the store\<close>

text \<open>
  The record has the fields the routes pass to \<^verbatim>\<open>new Product\<close> and the ones the store
  adds (\<open>oid\<close> for \<^verbatim>\<open>_id\<close>, \<open>createdAt\<close>). The schema is the declaration with the
  \<^verbatim>\<open>image\<close> field, the one this router is written for. That declaration has no
  \<^verbatim>\<open>barcode\<close> path and no unique index, so no \<^verbatim>\<open>save\<close> fails on a barcode. The field
  \<open>barcode\<close> of the record is the value the handler passes to \<^verbatim>\<open>new Product\<close>; no route
  reads or assigns it afterwards (in the strict mode of the library a path that the
  schema lacks is not written to the database).
  \<open>image_url\<close> is the field \<^verbatim>\<open>image\<close>; \<open>None\<close> is \<^verbatim>\<open>null\<close>.
\<close>

record product =
  oid :: nat
  itemName :: string
  sellPrice :: number
  type :: string
  primaryUnit :: "string option"
  customUnit :: "string option"
  gstEnabled :: bool
  gstPercentage :: number
  gstAmount :: number
  totalPrice :: number
  barcode :: string
  image_url :: "string option"
  createdAt :: nat

definition type_enum :: "string list" where
  "type_enum = [''Veg'', ''Non-Veg'', ''Beverage'']"

text \<open>The schema's validators, run by every \<^verbatim>\<open>save\<close>: \<open>Some\<close> is the validation error.\<close>

definition schema_error :: "product \<Rightarrow> string option" where
  "schema_error p =
     (if itemName p = [] then Some ''Product validation failed: itemName''
      else if sellPrice p = NaN then Some ''Product validation failed: sellPrice''
      else if type p \<notin> set type_enum then Some ''Product validation failed: type''
      else None)"

datatype host_call = Upload upload_file | Destroy string

text \<open>
  The state the routes act on: the collection in insertion order, the next fresh
  \<^verbatim>\<open>_id\<close>, and the calls made to the asset host so far.
\<close>

record world =
  products :: "product list"
  next_oid :: nat
  host_calls :: "host_call list"

text \<open>
  What a handler cannot decide: the clock, the random draw of the barcode, and the
  answers of the asset host (\<open>upload_response = None\<close> and \<open>destroy_response = False\<close>
  are rejected promises).
\<close>

record env =
  now :: nat
  math_random :: nat
  upload_response :: "string option"
  destroy_response :: bool

text \<open>
  \<^verbatim>\<open>Product.findById(id)\<close> on the string of the path: \<open>Inl\<close> is the \<^verbatim>\<open>CastError\<close> thrown
  when the driver cannot cast the string, \<open>Inr None\<close> is \<^verbatim>\<open>null\<close>.
\<close>

definition findById :: "(string \<Rightarrow> nat option) \<Rightarrow> string \<Rightarrow> world \<Rightarrow> string + product option" where
  "findById cast pid w =
     (case cast pid of None \<Rightarrow> Inl ''Cast to ObjectId failed''
      | Some i \<Rightarrow> Inr (find (\<lambda>p. oid p = i) (products w)))"

definition save_new :: "product \<Rightarrow> world \<Rightarrow> string + product \<times> world" where
  "save_new p w =
     (case schema_error p of Some msg \<Rightarrow> Inl msg
      | None \<Rightarrow> Inr (p, w\<lparr>products := products w @ [p], next_oid := Suc (next_oid w)\<rparr>))"

definition save_existing :: "product \<Rightarrow> world \<Rightarrow> string + product \<times> world" where
  "save_existing p w =
     (case schema_error p of Some msg \<Rightarrow> Inl msg
      | None \<Rightarrow>
          Inr (p, w\<lparr>products := map (\<lambda>q. if oid q = oid p then p else q) (products w)\<rparr>))"

fun remove_by_id :: "nat \<Rightarrow> product list \<Rightarrow> product list" where
  "remove_by_id pid [] = []"
| "remove_by_id pid (p # ps) = (if oid p = pid then ps else p # remove_by_id pid ps)"

definition findByIdAndDelete ::
  "(string \<Rightarrow> nat option) \<Rightarrow> string \<Rightarrow> world \<Rightarrow> (string + product option) \<times> world" where
  "findByIdAndDelete cast pid w =
     (case cast pid of None \<Rightarrow> (Inl ''Cast to ObjectId failed'', w)
      | Some i \<Rightarrow>
          (Inr (find (\<lambda>p. oid p = i) (products w)),
           w\<lparr>products := remove_by_id i (products w)\<rparr>))"

text \<open>\<^verbatim>\<open>Product.find().sort({ createdAt: -1 })\<close>. Records of equal \<open>createdAt\<close>, whose
  order the database leaves open, keep their insertion order here.\<close>

definition find_sorted :: "world \<Rightarrow> product list" where
  "find_sorted w = sort_key (\<lambda>p. - int (createdAt p)) (products w)"

section \<open>The asset host\<close>

definition uploadToCloudinary ::
  "env \<Rightarrow> upload_file option \<Rightarrow> world \<Rightarrow> (string + string option) \<times> world" where
  "uploadToCloudinary env file w =
     (case file of None \<Rightarrow> (Inr None, w)
      | Some f \<Rightarrow>
          (let w' = w\<lparr>host_calls := host_calls w @ [Upload f]\<rparr>
           in case upload_response env of
                None \<Rightarrow> (Inl ''Image upload failed'', w')
              | Some secure_url \<Rightarrow> (Inr (Some secure_url), w')))"

text \<open>\<^verbatim>\<open>image.split('/').pop().split('.')[0]\<close>.\<close>

definition publicId :: "string \<Rightarrow> string" where
  "publicId url =
     takeWhile (\<lambda>c. c \<noteq> CHR ''.'') (rev (takeWhile (\<lambda>c. c \<noteq> CHR ''/'') (rev url)))"

text \<open>\<^verbatim>\<open>cloudinary.uploader.destroy\<close>: the call is logged; \<open>Inl\<close> is a rejected promise.\<close>

definition uploader_destroy :: "env \<Rightarrow> string \<Rightarrow> world \<Rightarrow> (string + unit) \<times> world" where
  "uploader_destroy env public_id w =
     (if destroy_response env then Inr () else Inl ''destroy failed'',
      w\<lparr>host_calls := host_calls w @ [Destroy public_id]\<rparr>)"

text \<open>
  The block both the update and the delete handler run on the image of a record: when
  it is truthy, \<^verbatim>\<open>destroy\<close> inside a \<^verbatim>\<open>try\<close> whose \<^verbatim>\<open>catch\<close> only logs a warning.
\<close>

definition destroy_image :: "env \<Rightarrow> string option \<Rightarrow> world \<Rightarrow> world" where
  "destroy_image env img w =
     (case img of None \<Rightarrow> w
      | Some url \<Rightarrow>
          if url = [] then w
          else (case uploader_destroy env (''products/'' @ publicId url) w of
                  (Inl deleteError, w') \<Rightarrow> w'
                | (Inr done, w') \<Rightarrow> w'))"

section \<open>The routes\<close>

datatype reply =
    Errors "(string \<times> string) list"
  | Error string
  | ErrorDetails string string
  | Product string "product option"
  | Products "product list"

datatype response = Json nat reply | Next string

record request =
  body :: body
  image_part :: "upload_file option"

text \<open>The \<^verbatim>\<open>try\<close> block of \<^verbatim>\<open>POST /products\<close>, after validation.\<close>

definition create_product ::
  "env \<Rightarrow> body \<Rightarrow> upload_file option \<Rightarrow> world \<Rightarrow> response \<times> world" where
  "create_product env b file w =
     (case uploadToCloudinary env file w of
        (Inl msg, w1) \<Rightarrow> (Json 400 (ErrorDetails ''Failed to create product'' msg), w1)
      | (Inr imageUrl, w1) \<Rightarrow>
          (let gstEnabled = b ''gstEnabled'';
               gstPercentage = (if gstEnabled = Some ''true'' then Fin 5 else Fin 0);
               sellPriceFloat = parseFloat (field b ''sellPrice'');
               gstAmount = (if gstEnabled = Some ''true''
                            then round2 (num_mul sellPriceFloat five_percent) else Fin 0);
               totalPrice = round2 (num_add sellPriceFloat gstAmount);
               barcode = toString (math_random env);
               newProduct = \<lparr>oid = next_oid w1,
                             itemName = trim (field b ''itemName''),
                             sellPrice = sellPriceFloat,
                             type = (case b ''type'' of None \<Rightarrow> ''Veg'' | Some t \<Rightarrow> t),
                             primaryUnit = b ''primaryUnit'',
                             customUnit = b ''customUnit'',
                             gstEnabled = (gstEnabled = Some ''true''),
                             gstPercentage = gstPercentage,
                             gstAmount = gstAmount,
                             totalPrice = totalPrice,
                             barcode = barcode,
                             image_url = imageUrl,
                             createdAt = now env\<rparr>
           in case save_new newProduct w1 of
                Inl msg \<Rightarrow> (Json 400 (ErrorDetails ''Failed to create product'' msg), w1)
              | Inr (savedProduct, w2) \<Rightarrow>
                  (Json 201 (Product ''Product created successfully'' (Some savedProduct)), w2)))"

definition post_products :: "env \<Rightarrow> request \<Rightarrow> world \<Rightarrow> response \<times> world" where
  "post_products env req w =
     (case upload_single (image_part req) of
        Inl err \<Rightarrow> (Next err, w)
      | Inr file \<Rightarrow>
          (case validateProduct (body req) of
             (errors, b) \<Rightarrow>
               if errors \<noteq> [] then (Json 400 (Errors errors), w)
               else create_product env b file w))"

text \<open>The \<^verbatim>\<open>try\<close> block of \<^verbatim>\<open>PUT /products/:id\<close>, after validation (which leaves no
  request without a \<open>type\<close>, so that the schema's default is never needed here).\<close>

definition update_product ::
  "(string \<Rightarrow> nat option) \<Rightarrow> env \<Rightarrow> string \<Rightarrow> body \<Rightarrow> upload_file option \<Rightarrow> world \<Rightarrow>
     response \<times> world" where
  "update_product cast env productId b file w =
     (case findById cast productId w of
        Inl msg \<Rightarrow> (Json 400 (ErrorDetails ''Failed to update product'' msg), w)
      | Inr None \<Rightarrow> (Json 404 (Error ''Product not found''), w)
      | Inr (Some existingProduct) \<Rightarrow>
          (case (case file of None \<Rightarrow> (Inr (image_url existingProduct), w)
                 | Some f \<Rightarrow>
                     uploadToCloudinary env file
                       (destroy_image env (image_url existingProduct) w)) of
             (Inl msg, w1) \<Rightarrow> (Json 400 (ErrorDetails ''Failed to update product'' msg), w1)
           | (Inr imageUrl, w1) \<Rightarrow>
               (let gstEnabled = b ''gstEnabled'';
                    gstPercentage = (if gstEnabled = Some ''true'' then Fin 5 else Fin 0);
                    sellPriceFloat = parseFloat (field b ''sellPrice'');
                    gstAmount = (if gstEnabled = Some ''true''
                                 then round2 (num_mul sellPriceFloat five_percent) else Fin 0);
                    totalPrice = round2 (num_add sellPriceFloat gstAmount);
                    updated = existingProduct
                      \<lparr>sellPrice := sellPriceFloat,
                       type := (case b ''type'' of None \<Rightarrow> ''Veg'' | Some t \<Rightarrow> t),
                       primaryUnit := b ''primaryUnit'',
                       customUnit := b ''customUnit'',
                       gstEnabled := (gstEnabled = Some ''true''),
                       gstPercentage := gstPercentage,
                       gstAmount := gstAmount,
                       totalPrice := totalPrice,
                       image_url := imageUrl\<rparr>
                in case save_existing updated w1 of
                     Inl msg \<Rightarrow>
                       (Json 400 (ErrorDetails ''Failed to update product'' msg), w1)
                   | Inr (updatedProduct, w2) \<Rightarrow>
                       (Json 200 (Product ''Product updated successfully'' (Some updatedProduct)),
                        w2))))"

definition put_products ::
  "(string \<Rightarrow> nat option) \<Rightarrow> env \<Rightarrow> string \<Rightarrow> request \<Rightarrow> world \<Rightarrow> response \<times> world" where
  "put_products cast env productId req w =
     (case upload_single (image_part req) of
        Inl err \<Rightarrow> (Next err, w)
      | Inr file \<Rightarrow>
          (case validateProduct (body req) of
             (errors, b) \<Rightarrow>
               if errors \<noteq> [] then (Json 400 (Errors errors), w)
               else update_product cast env productId b file w))"

text \<open>\<^verbatim>\<open>DELETE /products/:id\<close>: all of it is inside a \<^verbatim>\<open>try\<close> whose \<^verbatim>\<open>catch\<close> answers 500.\<close>

definition delete_products ::
  "(string \<Rightarrow> nat option) \<Rightarrow> env \<Rightarrow> string \<Rightarrow> world \<Rightarrow> response \<times> world" where
  "delete_products cast env productId w =
     (case findById cast productId w of
        Inl msg \<Rightarrow> (Json 500 (ErrorDetails ''Failed to delete product'' msg), w)
      | Inr None \<Rightarrow> (Json 404 (Error ''Product not found''), w)
      | Inr (Some product) \<Rightarrow>
          (case findByIdAndDelete cast productId (destroy_image env (image_url product) w) of
             (Inl msg, w2) \<Rightarrow> (Json 500 (ErrorDetails ''Failed to delete product'' msg), w2)
           | (Inr deletedProduct, w2) \<Rightarrow>
               (Json 200 (Product ''Product deleted successfully'' deletedProduct), w2)))"

definition get_products :: "world \<Rightarrow> response \<times> world" where
  "get_products w = (Json 200 (Products (find_sorted w)), w)"

section \<open>Reachable states\<close>

definition empty_world :: world where
  "empty_world = \<lparr>products = [], next_oid = 0, host_calls = []\<rparr>"

text \<open>The states the routes can bring the store into, starting from the empty collection.\<close>

inductive reachable :: "world \<Rightarrow> bool" where
  init: "reachable empty_world"
| post: "reachable w \<Longrightarrow> reachable (snd (post_products env req w))"
| put: "reachable w \<Longrightarrow> reachable (snd (put_products cast env productId req w))"
| delete: "reachable w \<Longrightarrow> reachable (snd (delete_products cast env productId w))"

section \<open>Names for parts of the handlers\<close>

text \<open>
  The record \<^verbatim>\<open>new Product({...})\<close> builds, the image step of the update handler and
  the record its assignments make. The handlers above spell them out; the lemmas
  \<open>create_product_eq\<close> and \<open>update_product_eq\<close> show that these are the same terms.
\<close>

definition created_record :: "env \<Rightarrow> body \<Rightarrow> string option \<Rightarrow> world \<Rightarrow> product" where
  "created_record env b imageUrl w =
     \<lparr>oid = next_oid w,
      itemName = trim (field b ''itemName''),
      sellPrice = parseFloat (field b ''sellPrice''),
      type = (case b ''type'' of None \<Rightarrow> ''Veg'' | Some t \<Rightarrow> t),
      primaryUnit = b ''primaryUnit'',
      customUnit = b ''customUnit'',
      gstEnabled = (b ''gstEnabled'' = Some ''true''),
      gstPercentage = (if b ''gstEnabled'' = Some ''true'' then Fin 5 else Fin 0),
      gstAmount = (if b ''gstEnabled'' = Some ''true''
                   then round2 (num_mul (parseFloat (field b ''sellPrice'')) five_percent)
                   else Fin 0),
      totalPrice = round2 (num_add (parseFloat (field b ''sellPrice''))
                     (if b ''gstEnabled'' = Some ''true''
                      then round2 (num_mul (parseFloat (field b ''sellPrice'')) five_percent)
                      else Fin 0)),
      barcode = toString (math_random env),
      image_url = imageUrl,
      createdAt = now env\<rparr>"

definition image_step ::
  "env \<Rightarrow> product \<Rightarrow> upload_file option \<Rightarrow> world \<Rightarrow> (string + string option) \<times> world" where
  "image_step env existingProduct file w =
     (case file of None \<Rightarrow> (Inr (image_url existingProduct), w)
      | Some f \<Rightarrow> uploadToCloudinary env file (destroy_image env (image_url existingProduct) w))"

definition updated_record :: "product \<Rightarrow> body \<Rightarrow> string option \<Rightarrow> product" where
  "updated_record existingProduct b imageUrl = existingProduct
     \<lparr>sellPrice := parseFloat (field b ''sellPrice''),
      type := (case b ''type'' of None \<Rightarrow> ''Veg'' | Some t \<Rightarrow> t),
      primaryUnit := b ''primaryUnit'',
      customUnit := b ''customUnit'',
      gstEnabled := (b ''gstEnabled'' = Some ''true''),
      gstPercentage := (if b ''gstEnabled'' = Some ''true'' then Fin 5 else Fin 0),
      gstAmount := (if b ''gstEnabled'' = Some ''true''
                    then round2 (num_mul (parseFloat (field b ''sellPrice'')) five_percent)
                    else Fin 0),
      totalPrice := round2 (num_add (parseFloat (field b ''sellPrice''))
                      (if b ''gstEnabled'' = Some ''true''
                       then round2 (num_mul (parseFloat (field b ''sellPrice'')) five_percent)
                       else Fin 0)),
      image_url := imageUrl\<rparr>"

section \<open>Example requests\<close>

text \<open>An example of a cast: the strings of 24 hexadecimal digits, read as numbers.\<close>

definition hex_digit :: "char \<Rightarrow> nat option" where
  "hex_digit c = map_of (zip ''0123456789abcdef'' [0 ..< 16] @ zip ''ABCDEF'' [10 ..< 16]) c"

fun hex_val :: "nat \<Rightarrow> string \<Rightarrow> nat option" where
  "hex_val a [] = Some a"
| "hex_val a (c # cs) = (case hex_digit c of None \<Rightarrow> None | Some d \<Rightarrow> hex_val (16 * a + d) cs)"

definition hex_id :: "string \<Rightarrow> nat option" where
  "hex_id s = (if length s = 24 then hex_val 0 s else None)"

definition id_0 :: string where
  "id_0 = ''000000000000000000000000''"

definition id_7 :: string where
  "id_7 = ''000000000000000000000007''"

definition png_file :: upload_file where
  "png_file = \<lparr>mimetype = ''image/png'', buffer = ''PNG''\<rparr>"

definition text_file :: upload_file where
  "text_file = \<lparr>mimetype = ''text/plain'', buffer = ''hello''\<rparr>"

definition big_png :: upload_file where
  "big_png = \<lparr>mimetype = ''image/png'', buffer = replicate (Suc fileSize) (CHR ''x'')\<rparr>"

definition url_a :: string where
  "url_a = ''https://res.cloudinary.com/demo/image/upload/v1/products/tea.png''"

definition url_b :: string where
  "url_b = ''https://res.cloudinary.com/demo/image/upload/v2/products/chai.png''"

definition env_a :: env where
  "env_a = \<lparr>now = 1000, math_random = 42, upload_response = Some url_a,
            destroy_response = False\<rparr>"

definition env_b :: env where
  "env_b = \<lparr>now = 2000, math_random = 43, upload_response = Some url_b,
            destroy_response = False\<rparr>"

definition env_c :: env where
  "env_c = \<lparr>now = 3000, math_random = 44, upload_response = None,
            destroy_response = True\<rparr>"

definition tea_body :: "string \<Rightarrow> body" where
  "tea_body ty = map_of [(''itemName'', ''Tea''), (''sellPrice'', ''20''), (''type'', ty),
                         (''gstEnabled'', ''true'')]"

definition tea_beverage :: request where
  "tea_beverage = \<lparr>body = tea_body ''Beverage'', image_part = None\<rparr>"

definition tea_veg :: request where
  "tea_veg = \<lparr>body = tea_body ''Veg'', image_part = None\<rparr>"

definition tea_with_image :: request where
  "tea_with_image = \<lparr>body = tea_body ''Veg'', image_part = Some png_file\<rparr>"

definition tea_with_text :: request where
  "tea_with_text = \<lparr>body = tea_body ''Veg'', image_part = Some text_file\<rparr>"

definition tea_with_big_png :: request where
  "tea_with_big_png = \<lparr>body = tea_body ''Veg'', image_part = Some big_png\<rparr>"

definition blank_body :: body where
  "blank_body = map_of [(''itemName'', ''   ''), (''sellPrice'', ''20''), (''type'', ''Veg'')]"

definition blank_name :: request where
  "blank_name = \<lparr>body = blank_body, image_part = None\<rparr>"

definition blank_name_with_text :: request where
  "blank_name_with_text = \<lparr>body = blank_body, image_part = Some text_file\<rparr>"

definition nbsp_body :: body where
  "nbsp_body = map_of [(''itemName'', [CHR 0xA0]), (''sellPrice'', ''20''), (''type'', ''Veg'')]"

definition nbsp_name :: request where
  "nbsp_name = \<lparr>body = nbsp_body, image_part = None\<rparr>"

definition cheap_body :: body where
  "cheap_body = map_of [(''itemName'', ''Mint''), (''sellPrice'', ''0.3''), (''type'', ''Veg''),
                        (''gstEnabled'', ''true'')]"

definition cheap_item :: request where
  "cheap_item = \<lparr>body = cheap_body, image_part = None\<rparr>"

definition no_name_body :: body where
  "no_name_body = map_of [(''sellPrice'', ''20''), (''type'', ''Non-Veg''),
                          (''gstEnabled'', ''false'')]"

definition update_no_name :: request where
  "update_no_name = \<lparr>body = no_name_body, image_part = None\<rparr>"

definition rename_body :: body where
  "rename_body = map_of [(''itemName'', ''Coffee''), (''sellPrice'', ''20''),
                         (''type'', ''Non-Veg''), (''gstEnabled'', ''false'')]"

definition update_rename :: request where
  "update_rename = \<lparr>body = rename_body, image_part = Some png_file\<rparr>"

text \<open>The records and stores these requests lead to (see the evaluation lemmas below).\<close>

definition tea_record :: "nat \<Rightarrow> string \<Rightarrow> string option \<Rightarrow> nat \<Rightarrow> product" where
  "tea_record i code img t =
     \<lparr>oid = i, itemName = ''Tea'', sellPrice = Fin 20, type = ''Veg'',
      primaryUnit = None, customUnit = None, gstEnabled = True,
      gstPercentage = Fin 5, gstAmount = Fin 1, totalPrice = Fin 21,
      barcode = code, image_url = img, createdAt = t\<rparr>"

definition world_a :: world where
  "world_a = \<lparr>products = [tea_record 0 ''42'' (Some url_a) 1000], next_oid = 1,
              host_calls = [Upload png_file]\<rparr>"

definition updated_tea :: product where
  "updated_tea =
     \<lparr>oid = 0, itemName = ''Tea'', sellPrice = Fin 20, type = ''Non-Veg'',
      primaryUnit = None, customUnit = None, gstEnabled = False,
      gstPercentage = Fin 0, gstAmount = Fin 0, totalPrice = Fin 20,
      barcode = ''42'', image_url = Some url_b, createdAt = 1000\<rparr>"

definition world_b :: world where
  "world_b = \<lparr>products = [updated_tea], next_oid = 1,
              host_calls = [Upload png_file, Destroy ''products/tea'', Upload png_file]\<rparr>"

definition mint_record :: product where
  "mint_record =
     \<lparr>oid = 0, itemName = ''Mint'', sellPrice = parseFloat ''0.3'', type = ''Veg'',
      primaryUnit = None, customUnit = None, gstEnabled = True,
      gstPercentage = Fin 5, gstAmount = parseFloat ''0.01'', totalPrice = parseFloat ''0.31'',
      barcode = ''42'', image_url = None, createdAt = 1000\<rparr>"

definition mint_world :: world where
  "mint_world = \<lparr>products = [mint_record], next_oid = 1, host_calls = []\<rparr>"

definition world_1 :: world where
  "world_1 = \<lparr>products = [tea_record 0 ''42'' None 1000], next_oid = 1, host_calls = []\<rparr>"

definition world_2 :: world where
  "world_2 = \<lparr>products = [tea_record 0 ''42'' None 1000, tea_record 1 ''43'' None 2000],
              next_oid = 2, host_calls = []\<rparr>"

definition world_3 :: world where
  "world_3 = \<lparr>products = [tea_record 0 ''42'' None 1000, tea_record 1 ''43'' None 2000,
                          tea_record 2 ''44'' None 3000],
              next_oid = 3, host_calls = []\<rparr>"

section \<open>Strings and validation: basic facts\<close>

lemma dropWhile_hd_id: "xs = [] \<or> \<not> P (hd xs) \<Longrightarrow> dropWhile P xs = xs"
  by (cases xs) auto

lemma trim_blank: "\<forall>c\<in>set s. is_space c \<Longrightarrow> trim s = []"
  by (simp add: trim_def dropWhile_eq_Nil_conv set_dropWhileD)

text \<open>Trimming twice (the sanitizer, then the schema's \<^verbatim>\<open>trim: true\<close>) is trimming once.\<close>

lemma trim_idem: "trim (trim s) = trim s"
proof -
  define u where "u = dropWhile is_space s"
  define t where "t = rev (dropWhile is_space (rev u))"
  have u: "u = [] \<or> \<not> is_space (hd u)"
    unfolding u_def by (metis hd_dropWhile)
  have rt: "rev t = [] \<or> \<not> is_space (hd (rev t))"
    unfolding t_def by (metis hd_dropWhile rev_rev_ident)
  have "rev u = takeWhile is_space (rev u) @ rev t"
    by (simp add: t_def)
  then have split_u: "u = t @ rev (takeWhile is_space (rev u))"
    by (metis rev_append rev_rev_ident)
  then have "t \<noteq> [] \<Longrightarrow> hd t = hd u"
    by (metis hd_append2)
  with u split_u have "t = [] \<or> \<not> is_space (hd t)"
    by (metis append_is_Nil_conv)
  then have "dropWhile is_space t = t"
    by (rule dropWhile_hd_id)
  moreover have "dropWhile is_space (rev t) = rev t"
    using rt by (rule dropWhile_hd_id)
  ultimately have "trim t = t"
    by (simp add: trim_def)
  then show ?thesis
    by (simp add: t_def u_def trim_def)
qed

lemma not_digit_comma: "\<not> is_digit CHR '',''"
  by (simp add: is_digit_def)

lemma comma_dropWhile: "CHR '','' \<in> set s \<Longrightarrow> CHR '','' \<in> set (dropWhile is_digit s)"
  by (induction s) (auto simp: not_digit_comma)

lemma exponent_no_comma:
  assumes "(c = CHR ''e'' \<or> c = CHR ''E'') \<and>
             (let ds = (case cs of [] \<Rightarrow> []
                        | d # ds' \<Rightarrow> if d = CHR ''+'' \<or> d = CHR ''-'' then ds' else cs)
              in ds \<noteq> [] \<and> list_all is_digit ds)"
  shows "CHR '','' \<notin> set (c # cs)"
proof (cases cs)
  case Nil
  with assms show ?thesis by auto
next
  case (Cons d ds')
  show ?thesis
  proof (cases "d = CHR ''+'' \<or> d = CHR ''-''")
    case True
    with assms Cons have "list_all is_digit ds'" by (simp add: Let_def)
    then have "CHR '','' \<notin> set ds'" using not_digit_comma by (auto simp: list_all_iff)
    with True Cons assms show ?thesis by auto
  next
    case False
    with assms Cons have "list_all is_digit cs" by (simp add: Let_def)
    then have "CHR '','' \<notin> set cs" using not_digit_comma by (auto simp: list_all_iff)
    with assms show ?thesis by auto
  qed
qed

text \<open>A string the pattern of \<^verbatim>\<open>isFloat\<close> accepts has no comma, so the validator and the
  handler parse the same string.\<close>

lemma float_regex_no_comma: "float_regex s \<Longrightarrow> CHR '','' \<notin> set s"
proof
  assume fr: "float_regex s" and c: "CHR '','' \<in> set s"
  define s1 where
    "s1 = (case s of [] \<Rightarrow> [] | c # cs \<Rightarrow> if c = CHR ''-'' \<or> c = CHR ''+'' then cs else s)"
  define s2 where "s2 = dropWhile is_digit s1"
  define s3 where
    "s3 = (case s2 of [] \<Rightarrow> [] | c # cs \<Rightarrow> if c = CHR ''.'' then dropWhile is_digit cs else s2)"
  have c1: "CHR '','' \<in> set s1"
  proof (cases s)
    case Nil
    with c show ?thesis by simp
  next
    case (Cons a as)
    with c show ?thesis by (cases "a = CHR ''-'' \<or> a = CHR ''+''") (auto simp: s1_def)
  qed
  have c2: "CHR '','' \<in> set s2"
    using c1 by (simp add: s2_def comma_dropWhile)
  have c3: "CHR '','' \<in> set s3"
  proof (cases s2)
    case Nil
    with c2 show ?thesis by simp
  next
    case (Cons a as)
    with c2 show ?thesis
      by (cases "a = CHR ''.''") (auto simp: s3_def comma_dropWhile)
  qed
  from fr have tail: "case s3 of [] \<Rightarrow> True
         | c # cs \<Rightarrow>
             (c = CHR ''e'' \<or> c = CHR ''E'') \<and>
             (let ds = (case cs of [] \<Rightarrow> []
                        | d # ds' \<Rightarrow> if d = CHR ''+'' \<or> d = CHR ''-'' then ds' else cs)
              in ds \<noteq> [] \<and> list_all is_digit ds)"
    unfolding float_regex_def s1_def s2_def s3_def Let_def .
  show False
  proof (cases s3)
    case Nil
    with c3 show ?thesis by simp
  next
    case (Cons a as)
    with tail have "CHR '','' \<notin> set (a # as)"
      by (intro exponent_no_comma) simp
    with c3 Cons show ?thesis by simp
  qed
qed

lemma replace_comma_id: "CHR '','' \<notin> set s \<Longrightarrow> replace_comma s = s"
  by (induction s) auto

lemma isFloat_parse: "isFloat_min0 s \<Longrightarrow> num_ge (parseFloat s) (Fin 0)"
  by (auto simp: isFloat_min0_def replace_comma_id dest!: float_regex_no_comma)

lemma num_ge_not_NaN: "num_ge x y \<Longrightarrow> x \<noteq> NaN"
  by (cases x) auto

lemma validate_ok:
  assumes "fst (validateProduct b) = []"
  shows "trim (field b ''itemName'') \<noteq> []"
    and "isFloat_min0 (field b ''sellPrice'')"
    and "b ''type'' = Some ''Veg'' \<or> b ''type'' = Some ''Non-Veg''"
  using assms
  by (auto simp: validateProduct_def Let_def field_def split: if_splits option.splits)

lemma validate_body:
  "snd (validateProduct b) = b(''itemName'' \<mapsto> trim (field b ''itemName''))"
  by (simp add: validateProduct_def Let_def)

section \<open>The store and the asset host: basic facts\<close>

lemma find_Some_mem: "find P xs = Some x \<Longrightarrow> x \<in> set xs \<and> P x"
  by (induction xs) (auto split: if_splits)

lemma find_replace:
  "find (\<lambda>q. oid q = pid) ps = Some old \<Longrightarrow> oid p = pid \<Longrightarrow>
   find (\<lambda>q. oid q = pid) (map (\<lambda>q. if oid q = oid p then p else q) ps) = Some p"
  by (induction ps) (auto split: if_splits)

lemma set_remove_by_id: "set (remove_by_id pid ps) \<subseteq> set ps"
  by (induction ps) auto

lemma destroy_image_frame:
  "products (destroy_image env img w) = products w"
  "next_oid (destroy_image env img w) = next_oid w"
  "host_calls (destroy_image env img w) =
     host_calls w @ (case img of None \<Rightarrow> []
                     | Some url \<Rightarrow> if url = [] then [] else [Destroy (''products/'' @ publicId url)])"
  by (auto simp: destroy_image_def uploader_destroy_def split: option.splits)

lemma destroy_image_Some:
  "destroy_image env (Some url) w =
     (if url = [] then w
      else w\<lparr>host_calls := host_calls w @ [Destroy (''products/'' @ publicId url)]\<rparr>)"
  by (simp add: destroy_image_def uploader_destroy_def)

lemma upload_frame:
  assumes "uploadToCloudinary env file w = (res, w1)"
  shows "products w1 = products w" and "next_oid w1 = next_oid w"
    and "host_calls w1 = host_calls w @ (case file of None \<Rightarrow> [] | Some f \<Rightarrow> [Upload f])"
  using assms
  by (auto simp: uploadToCloudinary_def Let_def split: option.splits)

lemma upload_Some:
  "uploadToCloudinary env (Some f) w =
     (case upload_response env of None \<Rightarrow> Inl ''Image upload failed'' | Some url \<Rightarrow> Inr (Some url),
      w\<lparr>host_calls := host_calls w @ [Upload f]\<rparr>)"
  by (simp add: uploadToCloudinary_def Let_def split: option.splits)

lemma image_step_frame:
  assumes "image_step env old file w = (res, w1)"
  shows "products w1 = products w" and "next_oid w1 = next_oid w"
  using assms
  by (auto simp: image_step_def upload_Some destroy_image_frame split: option.splits)

lemma save_new_Inr:
  assumes "save_new p w = Inr (q, w')"
  shows "q = p" and "schema_error p = None" and "products w' = products w @ [p]"
    and "host_calls w' = host_calls w"
  using assms
  by (auto simp: save_new_def split: option.splits if_splits)

lemma save_existing_Inr:
  assumes "save_existing p w = Inr (q, w')"
  shows "q = p" and "schema_error p = None"
    and "products w' = map (\<lambda>q. if oid q = oid p then p else q) (products w)"
    and "host_calls w' = host_calls w"
  using assms
  by (auto simp: save_existing_def split: option.splits)

lemma save_existing_ok:
  "schema_error p = None \<Longrightarrow>
   save_existing p w = Inr (p, w\<lparr>products := map (\<lambda>q. if oid q = oid p then p else q) (products w)\<rparr>)"
  by (simp add: save_existing_def)

section \<open>The handlers: equations and case analyses\<close>

lemma create_product_eq:
  assumes "uploadToCloudinary env file w = (Inr imageUrl, w1)"
  shows "create_product env b file w =
     (case save_new (created_record env b imageUrl w1) w1 of
        Inl msg \<Rightarrow> (Json 400 (ErrorDetails ''Failed to create product'' msg), w1)
      | Inr (savedProduct, w2) \<Rightarrow>
          (Json 201 (Product ''Product created successfully'' (Some savedProduct)), w2))"
  using assms by (simp add: create_product_def created_record_def Let_def)

lemma create_product_failed:
  assumes "uploadToCloudinary env file w = (Inl msg, w1)"
  shows "create_product env b file w =
           (Json 400 (ErrorDetails ''Failed to create product'' msg), w1)"
  using assms by (simp add: create_product_def)

lemma create_product_cases:
  obtains (failed) msg w1 where
      "create_product env b file w = (Json 400 (ErrorDetails ''Failed to create product'' msg), w1)"
      "products w1 = products w"
    | (created) imageUrl w1 p w2 where
      "uploadToCloudinary env file w = (Inr imageUrl, w1)"
      "p = created_record env b imageUrl w1" "schema_error p = None"
      "create_product env b file w =
         (Json 201 (Product ''Product created successfully'' (Some p)), w2)"
      "products w2 = products w @ [p]" "host_calls w2 = host_calls w1"
proof -
  obtain res w1 where up: "uploadToCloudinary env file w = (res, w1)"
    by (cases "uploadToCloudinary env file w")
  show thesis
  proof (cases res)
    case (Inl msg)
    with up show thesis
      using failed[of msg w1] create_product_failed upload_frame(1) by blast
  next
    case (Inr imageUrl)
    note eq = create_product_eq[OF up[unfolded Inr], of b]
    show thesis
    proof (cases "save_new (created_record env b imageUrl w1) w1")
      case (Inl msg)
      with eq upload_frame(1)[OF up] show thesis
        using failed[of msg w1] by simp
    next
      case sv: (Inr sw)
      obtain q w2 where sw: "sw = (q, w2)" by (cases sw)
      note s = save_new_Inr[OF sv[unfolded sw]]
      show thesis
        using created[of imageUrl w1 "created_record env b imageUrl w1" w2]
          up Inr eq sv sw s upload_frame(1)[OF up] by simp
    qed
  qed
qed

lemma findById_Some:
  assumes "findById cast productId w = Inr (Some old)"
  obtains i where "cast productId = Some i" "find (\<lambda>p. oid p = i) (products w) = Some old"
    "oid old = i" "old \<in> set (products w)"
proof (cases "cast productId")
  case None
  with assms show ?thesis by (simp add: findById_def)
next
  case (Some i)
  with assms have "find (\<lambda>p. oid p = i) (products w) = Some old"
    by (simp add: findById_def)
  with Some that[of i] find_Some_mem[of "\<lambda>p. oid p = i" "products w" old] show ?thesis
    by simp
qed

lemma update_product_eq:
  assumes "findById cast productId w = Inr (Some old)"
    and "image_step env old file w = (Inr imageUrl, w1)"
  shows "update_product cast env productId b file w =
     (case save_existing (updated_record old b imageUrl) w1 of
        Inl msg \<Rightarrow> (Json 400 (ErrorDetails ''Failed to update product'' msg), w1)
      | Inr (updatedProduct, w2) \<Rightarrow>
          (Json 200 (Product ''Product updated successfully'' (Some updatedProduct)), w2))"
  using assms
  by (simp add: update_product_def image_step_def updated_record_def Let_def)

lemma update_product_failed:
  assumes "findById cast productId w = Inr (Some old)"
    and "image_step env old file w = (Inl msg, w1)"
  shows "update_product cast env productId b file w =
           (Json 400 (ErrorDetails ''Failed to update product'' msg), w1)"
  using assms by (simp add: update_product_def image_step_def)

lemma update_product_uncastable:
  assumes "cast productId = None"
  shows "update_product cast env productId b file w =
           (Json 400 (ErrorDetails ''Failed to update product'' ''Cast to ObjectId failed''), w)"
  using assms by (simp add: update_product_def findById_def)

lemma update_product_cases:
  obtains (missing) "findById cast productId w = Inr None"
      "update_product cast env productId b upl w = (Json 404 (Error ''Product not found''), w)"
    | (failed) msg w1 where
      "update_product cast env productId b upl w =
         (Json 400 (ErrorDetails ''Failed to update product'' msg), w1)"
      "products w1 = products w"
    | (updated) old imageUrl w1 p w2 where
      "findById cast productId w = Inr (Some old)"
      "image_step env old upl w = (Inr imageUrl, w1)"
      "p = updated_record old b imageUrl" "schema_error p = None"
      "update_product cast env productId b upl w =
         (Json 200 (Product ''Product updated successfully'' (Some p)), w2)"
      "products w2 = map (\<lambda>q. if oid q = oid p then p else q) (products w)"
proof (cases "findById cast productId w")
  case (Inl err)
  then show thesis using failed[of err w] by (simp add: update_product_def)
next
  case found: (Inr po)
  show thesis
  proof (cases po)
    case None
    with found show thesis using missing by (simp add: update_product_def)
  next
    case (Some old)
    with found have fo: "findById cast productId w = Inr (Some old)" by simp
    obtain res w1 where st: "image_step env old upl w = (res, w1)"
      by (cases "image_step env old upl w")
    note fr = image_step_frame(1)[OF st]
    show thesis
    proof (cases res)
      case (Inl msg)
      with fo st fr show thesis
        using failed[of msg w1] update_product_failed by blast
    next
      case (Inr imageUrl)
      note eq = update_product_eq[OF fo st[unfolded Inr], of b]
      show thesis
      proof (cases "save_existing (updated_record old b imageUrl) w1")
        case (Inl msg)
        with eq fr show thesis using failed[of msg w1] by simp
      next
        case sv: (Inr sw)
        obtain q w2 where sw: "sw = (q, w2)" by (cases sw)
        note s = save_existing_Inr[OF sv[unfolded sw]]
        show thesis
          using updated[of old imageUrl w1 "updated_record old b imageUrl" w2]
            fo st Inr eq sv sw s fr by simp
      qed
    qed
  qed
qed

text \<open>Both routes run the upload middleware, then the validators, then the handler.\<close>

lemma post_products_cases:
  obtains (rejected) err where "upload_single (image_part req) = Inl err"
      "post_products env req w = (Next err, w)"
    | (invalid) upl where "upload_single (image_part req) = Inr upl"
      "fst (validateProduct (body req)) \<noteq> []"
      "post_products env req w = (Json 400 (Errors (fst (validateProduct (body req)))), w)"
    | (handled) upl where "upload_single (image_part req) = Inr upl"
      "fst (validateProduct (body req)) = []"
      "post_products env req w = create_product env (snd (validateProduct (body req))) upl w"
  by (cases "upload_single (image_part req)"; cases "validateProduct (body req)";
      cases "fst (validateProduct (body req)) = []")
     (auto simp: post_products_def)

lemma put_products_cases:
  obtains (rejected) err where "upload_single (image_part req) = Inl err"
      "put_products cast env productId req w = (Next err, w)"
    | (invalid) upl where "upload_single (image_part req) = Inr upl"
      "fst (validateProduct (body req)) \<noteq> []"
      "put_products cast env productId req w =
         (Json 400 (Errors (fst (validateProduct (body req)))), w)"
    | (handled) upl where "upload_single (image_part req) = Inr upl"
      "fst (validateProduct (body req)) = []"
      "put_products cast env productId req w =
         update_product cast env productId (snd (validateProduct (body req))) upl w"
  by (cases "upload_single (image_part req)"; cases "validateProduct (body req)";
      cases "fst (validateProduct (body req)) = []")
     (auto simp: put_products_def)

lemma post_products_rejected:
  "upload_single (image_part req) = Inl err \<Longrightarrow> post_products env req w = (Next err, w)"
  by (simp add: post_products_def)

lemma put_products_rejected:
  "upload_single (image_part req) = Inl err \<Longrightarrow>
   put_products cast env productId req w = (Next err, w)"
  by (simp add: put_products_def)

lemma post_products_invalid:
  "upload_single (image_part req) = Inr upl \<Longrightarrow> fst (validateProduct (body req)) \<noteq> [] \<Longrightarrow>
   post_products env req w = (Json 400 (Errors (fst (validateProduct (body req)))), w)"
  by (cases "validateProduct (body req)") (simp add: post_products_def)

lemma put_products_invalid:
  "upload_single (image_part req) = Inr upl \<Longrightarrow> fst (validateProduct (body req)) \<noteq> [] \<Longrightarrow>
   put_products cast env productId req w = (Json 400 (Errors (fst (validateProduct (body req)))), w)"
  by (cases "validateProduct (body req)") (simp add: put_products_def)

lemma post_products_handled:
  "upload_single (image_part req) = Inr upl \<Longrightarrow> fst (validateProduct (body req)) = [] \<Longrightarrow>
   post_products env req w = create_product env (snd (validateProduct (body req))) upl w"
  by (cases "validateProduct (body req)") (simp add: post_products_def)

lemma put_products_handled:
  "upload_single (image_part req) = Inr upl \<Longrightarrow> fst (validateProduct (body req)) = [] \<Longrightarrow>
   put_products cast env productId req w =
     update_product cast env productId (snd (validateProduct (body req))) upl w"
  by (cases "validateProduct (body req)") (simp add: put_products_def)

section \<open>Reachable stores hold valid records\<close>

lemma post_products_valid:
  assumes "\<forall>p\<in>set (products w). schema_error p = None"
  shows "\<forall>p\<in>set (products (snd (post_products env req w))). schema_error p = None"
proof (cases rule: post_products_cases[of req env w])
  case (handled upl)
  show ?thesis
  proof (cases rule: create_product_cases[of env "snd (validateProduct (body req))" upl w])
    case (failed msg w1)
    with handled assms show ?thesis by simp
  next
    case (created imageUrl w1 p w2)
    with handled assms show ?thesis by simp
  qed
qed (use assms in simp_all)

lemma put_products_valid:
  assumes "\<forall>p\<in>set (products w). schema_error p = None"
  shows "\<forall>p\<in>set (products (snd (put_products cast env productId req w))). schema_error p = None"
proof (cases rule: put_products_cases[where req = req and cast = cast and env = env
      and productId = productId and w = w])
  case (handled upl)
  show ?thesis
  proof (cases rule: update_product_cases[where cast = cast and productId = productId and w = w
        and env = env and b = "snd (validateProduct (body req))" and upl = upl])
    case missing
    with handled assms show ?thesis by simp
  next
    case (failed msg w1)
    with handled assms show ?thesis by simp
  next
    case (updated old imageUrl w1 p w2)
    with handled assms show ?thesis by auto
  qed
qed (use assms in simp_all)

lemma delete_products_frame:
  "set (products (snd (delete_products cast env productId w))) \<subseteq> set (products w)"
proof (cases "cast productId")
  case None
  then show ?thesis by (simp add: delete_products_def findById_def)
next
  case (Some i)
  show ?thesis
  proof (cases "find (\<lambda>p. oid p = i) (products w)")
    case None
    with Some show ?thesis by (simp add: delete_products_def findById_def)
  next
    case found: (Some product)
    with Some have "products (snd (delete_products cast env productId w)) =
        remove_by_id i (products w)"
      by (simp add: delete_products_def findById_def findByIdAndDelete_def destroy_image_frame)
    with set_remove_by_id[of i "products w"] show ?thesis by simp
  qed
qed

lemma delete_products_valid:
  assumes "\<forall>p\<in>set (products w). schema_error p = None"
  shows "\<forall>p\<in>set (products (snd (delete_products cast env productId w))). schema_error p = None"
  using assms delete_products_frame[of cast env productId w] by blast

lemma reachable_valid: "reachable w \<Longrightarrow> \<forall>p\<in>set (products w). schema_error p = None"
proof (induction rule: reachable.induct)
  case init
  show ?case by (simp add: empty_world_def)
next
  case (post w env req)
  then show ?case by (intro post_products_valid)
next
  case (put w env productId req)
  then show ?case by (intro put_products_valid)
next
  case (delete w env productId)
  then show ?case by (intro delete_products_valid)
qed

section \<open>The arithmetic of the handlers\<close>

lemma pow2_pos: "0 < pow2 k"
  by (simp add: pow2_def)

lemma round_even_nonneg: "0 \<le> x \<Longrightarrow> 0 \<le> round_even x"
proof -
  assume "0 \<le> x"
  then have "0 \<le> \<lfloor>x\<rfloor>" by simp
  then show ?thesis
    by (simp add: round_even_def Let_def)
qed

lemma fl_pos_nonneg: "0 < x \<Longrightarrow> fl_pos x = Some y \<Longrightarrow> 0 \<le> y"
proof -
  assume x: "0 < x" and y: "fl_pos x = Some y"
  define k where "k = max (ilog2 x) (- 1022) - 52"
  have "0 \<le> x / pow2 k"
    using x pow2_pos[of k] by simp
  then have "0 \<le> round_even (x / pow2 k)"
    by (rule round_even_nonneg)
  moreover have "y = of_int (round_even (x / pow2 k)) * pow2 k"
    using y by (simp add: fl_pos_def Let_def k_def split: if_splits)
  ultimately show ?thesis
    using pow2_pos[of k] by simp
qed

lemma fl_nonneg: "0 \<le> x \<Longrightarrow> nonneg (fl x)"
proof (cases "x = 0")
  case True
  then show ?thesis by (simp add: fl_def)
next
  case False
  assume "0 \<le> x"
  with False have x: "0 < x" by simp
  show ?thesis
  proof (cases "fl_pos x")
    case None
    with x show ?thesis by (simp add: fl_def)
  next
    case (Some y)
    with x fl_pos_nonneg[OF x Some] show ?thesis by (simp add: fl_def)
  qed
qed

lemma num_ge_zero_nonneg: "num_ge x (Fin 0) \<Longrightarrow> nonneg x"
  by (cases x) simp_all

lemma nonneg_cases:
  assumes "nonneg x"
  obtains (finite) r where "x = Fin r" "0 \<le> r" | (infinite) "x = PInf"
  using assms by (cases x) simp_all

lemma num_mul_nonneg: "nonneg x \<Longrightarrow> 0 < c \<Longrightarrow> nonneg (num_mul x (Fin c))"
proof (erule nonneg_cases)
  fix r assume "x = Fin r" "0 \<le> r" "0 < c"
  then show ?thesis by (simp add: fl_nonneg)
next
  assume "x = PInf" "0 < c"
  then show ?thesis by simp
qed

lemma num_add_nonneg: "nonneg x \<Longrightarrow> nonneg y \<Longrightarrow> nonneg (num_add x y)"
  by (erule nonneg_cases; erule nonneg_cases) (simp_all add: fl_nonneg)

lemma spec_round2_nonneg: "0 \<le> x \<Longrightarrow> 0 \<le> spec_round2 x"
proof -
  assume "0 \<le> x"
  then have "0 \<le> \<lfloor>x * 100 + 1 / 2\<rfloor>" by simp
  then show ?thesis by (simp add: spec_round2_def)
qed

text \<open>
  On a price, the handlers' \<open>round2\<close> is the Round2 of the specification applied to the
  exact value of the double and rounded back to a double, as long as the value is below
  \<open>10\<^sup>2\<^sup>1\<close>; a larger value and \<open>+\<infinity>\<close> are left as they are.
\<close>

lemma round2_Fin:
  "0 \<le> x \<Longrightarrow> round2 (Fin x) = (if x < 10 ^ 21 then fl (spec_round2 x) else Fin x)"
  by (simp add: round2_def spec_round2_def not_less)

lemma round2_PInf: "round2 PInf = PInf"
  by (simp add: round2_def)

lemma round2_nonneg: "nonneg x \<Longrightarrow> nonneg (round2 x)"
proof (erule nonneg_cases)
  fix r assume "x = Fin r" "0 \<le> r"
  then show ?thesis
    by (simp add: round2_Fin fl_nonneg spec_round2_nonneg)
next
  assume "x = PInf"
  then show ?thesis by (simp add: round2_PInf)
qed

lemma five_percent_value: "five_percent = Fin (3602879701896397 / 2 ^ 56)"
  by code_simp

lemma five_percent_pos: "\<exists>c. 0 < c \<and> five_percent = Fin c"
  by (rule exI[of _ "3602879701896397 / 2 ^ 56"]) (simp add: five_percent_value)

text \<open>What the two assignments of a handler give on a price that is not negative.\<close>

lemma derived_in_doubles:
  assumes sp: "nonneg sp"
    and g: "g = (if on then round2 (num_mul sp five_percent) else Fin 0)"
    and t: "t = round2 (num_add sp g)"
  shows "(on \<longrightarrow> nonneg (num_mul sp five_percent))"
    and "(on \<longrightarrow> (\<forall>x. num_mul sp five_percent = Fin x \<longrightarrow>
            0 \<le> x \<and> g = (if x < 10 ^ 21 then fl (spec_round2 x) else Fin x)))"
    and "(on \<longrightarrow> num_mul sp five_percent = PInf \<longrightarrow> g = PInf)"
    and "nonneg (num_add sp g)"
    and "(\<forall>y. num_add sp g = Fin y \<longrightarrow>
            0 \<le> y \<and> t = (if y < 10 ^ 21 then fl (spec_round2 y) else Fin y))"
    and "(num_add sp g = PInf \<longrightarrow> t = PInf)"
proof -
  from five_percent_pos obtain c where c: "0 < c" "five_percent = Fin c" by blast
  have m: "nonneg (num_mul sp five_percent)"
    using num_mul_nonneg[OF sp c(1)] c(2) by simp
  then show "on \<longrightarrow> nonneg (num_mul sp five_percent)" by simp
  show "on \<longrightarrow> (\<forall>x. num_mul sp five_percent = Fin x \<longrightarrow>
            0 \<le> x \<and> g = (if x < 10 ^ 21 then fl (spec_round2 x) else Fin x))"
  proof (intro impI allI)
    fix x assume "on" and x: "num_mul sp five_percent = Fin x"
    from m x have "0 \<le> x" by simp
    with \<open>on\<close> x g show "0 \<le> x \<and> g = (if x < 10 ^ 21 then fl (spec_round2 x) else Fin x)"
      by (simp add: round2_Fin)
  qed
  show "on \<longrightarrow> num_mul sp five_percent = PInf \<longrightarrow> g = PInf"
    using g by (simp add: round2_PInf)
  have gn: "nonneg g"
    using g m by (simp add: round2_nonneg)
  show a: "nonneg (num_add sp g)"
    using sp gn by (rule num_add_nonneg)
  show "\<forall>y. num_add sp g = Fin y \<longrightarrow>
            0 \<le> y \<and> t = (if y < 10 ^ 21 then fl (spec_round2 y) else Fin y)"
  proof (intro impI allI)
    fix y assume y: "num_add sp g = Fin y"
    from a y have "0 \<le> y" by simp
    with y t show "0 \<le> y \<and> t = (if y < 10 ^ 21 then fl (spec_round2 y) else Fin y)"
      by (simp add: round2_Fin)
  qed
  show "num_add sp g = PInf \<longrightarrow> t = PInf"
    using t by (simp add: round2_PInf)
qed

section \<open>The example requests, evaluated\<close>

lemma mint_numerics:
  "isFloat_min0 ''0.3''" "parseFloat ''0.3'' \<noteq> NaN"
  "round2 (num_mul (parseFloat ''0.3'') five_percent) = parseFloat ''0.01''"
  "round2 (num_add (parseFloat ''0.3'') (parseFloat ''0.01'')) = parseFloat ''0.31''"
  "parseFloat ''0.01'' \<noteq> parseFloat ''0.02''"
  "fl (spec_round2 (3 / 10 * (5 / 100))) = parseFloat ''0.02''"
  "parse_unsigned ''0.3'' = Some (3 / 10)" "parse_unsigned ''0.05'' = Some (5 / 100)"
  by code_simp+

lemma tea_numerics:
  "num_mul (Fin 20) five_percent = Fin 1" "num_add (Fin 20) (Fin 1) = Fin 21"
  "num_add (Fin 20) (Fin 0) = Fin 20"
  "fl (spec_round2 1) = Fin 1" "fl (spec_round2 21) = Fin 21" "fl (spec_round2 20) = Fin 20"
  by code_simp+

lemma parse_20: "parseFloat ''20'' = Fin 20"
  by code_simp

lemma isFloat_20: "isFloat_min0 ''20''"
  by code_simp

lemma gst_20: "round2 (num_mul (Fin 20) five_percent) = Fin 1"
  by code_simp

lemma total_21: "round2 (num_add (Fin 20) (Fin 1)) = Fin 21"
  by code_simp

lemma total_20: "round2 (num_add (Fin 20) (Fin 0)) = Fin 20"
  by code_simp

lemma toString_examples: "toString 42 = ''42''" "toString 43 = ''43''" "toString 44 = ''44''"
  by (simp_all add: toString.simps digit_char_def)

lemma trim_examples: "trim ''Tea'' = ''Tea''" "trim ''Coffee'' = ''Coffee''" "trim ''   '' = []"
  "trim [] = []"
  by (simp_all add: trim_def is_space_def)

lemma publicId_url_a: "publicId url_a = ''tea''"
  by (simp add: publicId_def url_a_def)

lemma upload_single_examples:
  "upload_single None = Inr None"
  "upload_single (Some png_file) = Inr (Some png_file)"
  "upload_single (Some text_file) = Inl ''Only image files are allowed''"
  by (simp_all add: upload_single_def fileFilter_def starts_with_def png_file_def text_file_def
      fileSize_def)

lemmas numerics = parse_20 isFloat_20 gst_20 total_21 total_20 toString_examples trim_examples

lemma validate_tea: "validateProduct (tea_body ''Veg'') = ([], tea_body ''Veg'')"
  by (simp add: validateProduct_def tea_body_def field_def Let_def numerics fun_eq_iff)

lemma validate_tea_beverage:
  "fst (validateProduct (tea_body ''Beverage'')) = [(''type'', ''Invalid product type'')]"
  by (simp add: validateProduct_def tea_body_def field_def Let_def numerics)

lemma validate_blank_body:
  "fst (validateProduct blank_body) = [(''itemName'', ''Item name is required'')]"
  by (simp add: validateProduct_def blank_body_def field_def Let_def numerics)

lemma validate_no_name_body:
  "fst (validateProduct no_name_body) = [(''itemName'', ''Item name is required'')]"
  by (simp add: validateProduct_def no_name_body_def field_def Let_def numerics)

lemma validate_rename_body: "validateProduct rename_body = ([], rename_body)"
  by (simp add: validateProduct_def rename_body_def field_def Let_def numerics fun_eq_iff)

lemma created_tea:
  "created_record env (tea_body ''Veg'') img w =
     tea_record (next_oid w) (toString (math_random env)) img (now env)"
  by (simp add: created_record_def tea_record_def tea_body_def field_def numerics
      del: num_add.simps(1) num_mul.simps(1))

lemma schema_tea: "schema_error (tea_record i code img t) = None"
  by (simp add: schema_error_def tea_record_def type_enum_def)

lemma post_tea_veg:
  "post_products env_a tea_veg empty_world =
     (Json 201 (Product ''Product created successfully'' (Some (tea_record 0 ''42'' None 1000))),
      world_1)"
  "post_products env_b tea_veg world_1 =
     (Json 201 (Product ''Product created successfully'' (Some (tea_record 1 ''43'' None 2000))),
      world_2)"
  "post_products env_c tea_veg world_2 =
     (Json 201 (Product ''Product created successfully'' (Some (tea_record 2 ''44'' None 3000))),
      world_3)"
  by (simp_all add: post_products_def tea_veg_def upload_single_examples validate_tea
      create_product_eq[where imageUrl = None] uploadToCloudinary_def created_tea save_new_def
      schema_tea env_a_def env_b_def env_c_def empty_world_def world_1_def world_2_def
      world_3_def toString_examples)

lemma tea_record_sel:
  "oid (tea_record i code img t) = i" "itemName (tea_record i code img t) = ''Tea''"
  "barcode (tea_record i code img t) = code" "image_url (tea_record i code img t) = img"
  "createdAt (tea_record i code img t) = t"
  by (simp_all add: tea_record_def)

lemma post_tea_with_image:
  "post_products env_a tea_with_image empty_world =
     (Json 201 (Product ''Product created successfully''
        (Some (tea_record 0 ''42'' (Some url_a) 1000))), world_a)"
  by (simp add: post_products_def tea_with_image_def upload_single_examples validate_tea
      create_product_eq[where imageUrl = "Some url_a"] upload_Some created_tea save_new_def
      schema_tea env_a_def empty_world_def world_a_def toString_examples)

lemma hex_id_examples:
  "hex_id id_0 = Some 0" "hex_id id_7 = Some 7" "hex_id ''7'' = None"
  by code_simp+

lemma findById_world_a:
  "findById hex_id id_0 world_a = Inr (Some (tea_record 0 ''42'' (Some url_a) 1000))"
  "findById hex_id id_7 world_a = Inr None"
  "findById hex_id ''7'' world_a = Inl ''Cast to ObjectId failed''"
  by (simp_all add: findById_def hex_id_examples world_a_def tea_record_sel)

lemma updated_tea_eq:
  "updated_record (tea_record 0 ''42'' (Some url_a) 1000) rename_body (Some url_b) =
     updated_tea"
  by (simp add: updated_record_def tea_record_def rename_body_def updated_tea_def field_def
      numerics del: num_add.simps(1) num_mul.simps(1))

lemma schema_updated_tea: "schema_error updated_tea = None"
  by (simp add: schema_error_def updated_tea_def type_enum_def)

lemma url_a_truthy: "url_a \<noteq> []"
  by (simp add: url_a_def)

lemma image_step_world_a:
  "image_step env_b (tea_record 0 ''42'' (Some url_a) 1000) (Some png_file) world_a =
     (Inr (Some url_b),
      world_a\<lparr>host_calls := [Upload png_file, Destroy ''products/tea'', Upload png_file]\<rparr>)"
  by (simp add: image_step_def upload_Some destroy_image_Some tea_record_sel url_a_truthy
      publicId_url_a env_b_def world_a_def)

lemma put_update_rename:
  "put_products hex_id env_b id_0 update_rename world_a =
     (Json 200 (Product ''Product updated successfully'' (Some updated_tea)), world_b)"
proof -
  have "put_products hex_id env_b id_0 update_rename world_a =
          update_product hex_id env_b id_0 rename_body (Some png_file) world_a"
    by (simp add: put_products_def update_rename_def validate_rename_body upload_single_examples)
  also have "\<dots> = (Json 200 (Product ''Product updated successfully'' (Some updated_tea)), world_b)"
    by (simp add: update_product_eq[OF findById_world_a(1) image_step_world_a] updated_tea_eq
        save_existing_ok[OF schema_updated_tea])
       (simp add: world_a_def world_b_def updated_tea_def tea_record_sel)
  finally show ?thesis .
qed

lemma put_update_no_name:
  "put_products hex_id env_b id_0 update_no_name world_a =
     (Json 400 (Errors [(''itemName'', ''Item name is required'')]), world_a)"
  using put_products_invalid[where req = update_no_name and upl = None and cast = hex_id
      and env = env_b and productId = id_0 and w = world_a]
  by (simp add: update_no_name_def upload_single_examples validate_no_name_body)

lemma validate_nbsp_body:
  "fst (validateProduct nbsp_body) = [(''itemName'', ''Item name is required'')]"
  by (simp add: validateProduct_def nbsp_body_def field_def Let_def numerics trim_def
      is_space_def)

lemma validate_cheap_body: "validateProduct cheap_body = ([], cheap_body)"
  by (simp add: validateProduct_def cheap_body_def field_def Let_def mint_numerics trim_def
      is_space_def fun_eq_iff)

lemma post_cheap_item:
  "post_products env_a cheap_item empty_world =
     (Json 201 (Product ''Product created successfully'' (Some mint_record)), mint_world)"
proof -
  have "created_record env_a cheap_body None empty_world = mint_record"
    by (simp add: created_record_def cheap_body_def mint_record_def field_def mint_numerics
        toString_examples env_a_def empty_world_def trim_def is_space_def)
  moreover have "schema_error mint_record = None"
    by (simp add: schema_error_def mint_record_def type_enum_def mint_numerics)
  ultimately show ?thesis
    by (simp add: post_products_def cheap_item_def upload_single_examples validate_cheap_body
        create_product_eq[where imageUrl = None] uploadToCloudinary_def save_new_def
        empty_world_def mint_world_def)
qed

lemma post_blank_with_text:
  "post_products env blank_name_with_text w = (Next ''Only image files are allowed'', w)"
  by (rule post_products_rejected) (simp add: blank_name_with_text_def upload_single_examples)

section \<open>What a successful create and a successful update did\<close>

lemma post_products_201:
  assumes "post_products env req w = (Json 201 r, w')"
  obtains upl imageUrl w1 p where
    "upload_single (image_part req) = Inr upl" "fst (validateProduct (body req)) = []"
    "uploadToCloudinary env upl w = (Inr imageUrl, w1)"
    "p = created_record env (snd (validateProduct (body req))) imageUrl w1"
    "r = Product ''Product created successfully'' (Some p)"
    "products w' = products w @ [p]" "schema_error p = None"
proof (cases rule: post_products_cases[of req env w])
  case (rejected err)
  with assms show ?thesis by simp
next
  case (invalid upl)
  with assms show ?thesis by simp
next
  case (handled upl)
  show ?thesis
  proof (cases rule: create_product_cases[of env "snd (validateProduct (body req))" upl w])
    case (failed msg w1)
    with handled assms show ?thesis by simp
  next
    case (created imageUrl w1 p w2)
    with handled assms that[of upl imageUrl w1 p] show ?thesis by simp
  qed
qed

lemma put_products_200:
  assumes "put_products cast env productId req w = (Json 200 r, w')"
  obtains upl old imageUrl w1 p where
    "upload_single (image_part req) = Inr upl" "fst (validateProduct (body req)) = []"
    "findById cast productId w = Inr (Some old)"
    "image_step env old upl w = (Inr imageUrl, w1)"
    "p = updated_record old (snd (validateProduct (body req))) imageUrl"
    "r = Product ''Product updated successfully'' (Some p)"
    "products w' = map (\<lambda>q. if oid q = oid p then p else q) (products w)"
    "schema_error p = None"
proof (cases rule: put_products_cases[where req = req and cast = cast and env = env
      and productId = productId and w = w])
  case (rejected err)
  with assms show ?thesis by simp
next
  case (invalid upl)
  with assms show ?thesis by simp
next
  case (handled upl)
  show ?thesis
  proof (cases rule: update_product_cases[where cast = cast and productId = productId and w = w
        and env = env and b = "snd (validateProduct (body req))" and upl = upl])
    case missing
    with handled assms show ?thesis by simp
  next
    case (failed msg w1)
    with handled assms show ?thesis by simp
  next
    case (updated old imageUrl w1 p w2)
    with handled assms that[of upl old imageUrl w1 p] show ?thesis by simp
  qed
qed

lemma created_record_derived:
  "gstPercentage (created_record env b img w) =
     (if gstEnabled (created_record env b img w) then Fin 5 else Fin 0)"
  "gstAmount (created_record env b img w) =
     (if gstEnabled (created_record env b img w)
      then round2 (num_mul (sellPrice (created_record env b img w)) five_percent) else Fin 0)"
  "totalPrice (created_record env b img w) =
     round2 (num_add (sellPrice (created_record env b img w))
       (gstAmount (created_record env b img w)))"
  by (simp_all add: created_record_def)

lemma updated_record_derived:
  "gstPercentage (updated_record old b img) =
     (if gstEnabled (updated_record old b img) then Fin 5 else Fin 0)"
  "gstAmount (updated_record old b img) =
     (if gstEnabled (updated_record old b img)
      then round2 (num_mul (sellPrice (updated_record old b img)) five_percent) else Fin 0)"
  "totalPrice (updated_record old b img) =
     round2 (num_add (sellPrice (updated_record old b img)) (gstAmount (updated_record old b img)))"
  by (simp_all add: updated_record_def)

lemma updated_record_frame:
  "oid (updated_record old b img) = oid old" "itemName (updated_record old b img) = itemName old"
  "barcode (updated_record old b img) = barcode old"
  "createdAt (updated_record old b img) = createdAt old"
  "image_url (updated_record old b img) = img"
  by (simp_all add: updated_record_def)

lemma findById_after_update:
  assumes "findById cast productId w = Inr (Some old)" and "oid p = oid old"
    and "products w' = map (\<lambda>q. if oid q = oid p then p else q) (products w)"
  shows "findById cast productId w' = Inr (Some p)"
proof -
  from assms(1) obtain i where i: "cast productId = Some i"
    "find (\<lambda>p. oid p = i) (products w) = Some old" "oid old = i"
    by (rule findById_Some)
  with assms(2) have "oid p = i" by simp
  from find_replace[OF i(2) this] assms(3) i(1)
  show ?thesis by (simp add: findById_def)
qed

section \<open>The claims\<close>

lemma validated_price:
  assumes "fst (validateProduct b0) = []"
  shows "nonneg (parseFloat (field (snd (validateProduct b0)) ''sellPrice''))"
proof -
  have "field (snd (validateProduct b0)) ''sellPrice'' = field b0 ''sellPrice''"
    by (simp add: validate_body field_def)
  with validate_ok(2)[OF assms] show ?thesis
    by (auto dest!: isFloat_parse num_ge_zero_nonneg)
qed

lemma priced_record:
  assumes "nonneg (sellPrice p)"
    and "gstPercentage p = (if gstEnabled p then Fin 5 else Fin 0)"
    and "gstAmount p =
      (if gstEnabled p then round2 (num_mul (sellPrice p) five_percent) else Fin 0)"
    and "totalPrice p = round2 (num_add (sellPrice p) (gstAmount p))"
  shows "nonneg (sellPrice p) \<and>
         gstPercentage p = (if gstEnabled p then Fin 5 else Fin 0) \<and>
         (\<not> gstEnabled p \<longrightarrow> gstAmount p = Fin 0) \<and>
         (gstEnabled p \<longrightarrow> nonneg (num_mul (sellPrice p) five_percent)) \<and>
         (gstEnabled p \<longrightarrow> (\<forall>x. num_mul (sellPrice p) five_percent = Fin x \<longrightarrow>
            0 \<le> x \<and> gstAmount p = (if x < 10 ^ 21 then fl (spec_round2 x) else Fin x))) \<and>
         (gstEnabled p \<longrightarrow> num_mul (sellPrice p) five_percent = PInf \<longrightarrow> gstAmount p = PInf) \<and>
         nonneg (num_add (sellPrice p) (gstAmount p)) \<and>
         (\<forall>y. num_add (sellPrice p) (gstAmount p) = Fin y \<longrightarrow>
            0 \<le> y \<and> totalPrice p = (if y < 10 ^ 21 then fl (spec_round2 y) else Fin y)) \<and>
         (num_add (sellPrice p) (gstAmount p) = PInf \<longrightarrow> totalPrice p = PInf)"
  using assms(1,2) assms(3)[THEN eq_reflection, THEN meta_eq_to_obj_eq]
    derived_in_doubles[OF assms(1) assms(3) assms(4)]
  by simp

text \<open>
  C1, as stated, fails when Round2 is the decimal rounding of the specification. The
  create request with \<^verbatim>\<open>sellPrice=0.3\<close> and \<^verbatim>\<open>gstEnabled=true\<close> is answered 201 and its
  record has the \<open>gstAmount\<close> 0.01, while the Round2 of \<open>0.3 * 0.05 = 0.015\<close> is 0.02, half
  up and half to even alike: the handler multiplies doubles, the double product lies
  below 0.015, and \<^verbatim>\<open>toFixed(2)\<close> rounds that value.
\<close>

theorem gst_amount_of_0_3:
  "post_products env_a cheap_item empty_world =
     (Json 201 (Product ''Product created successfully'' (Some mint_record)), mint_world) \<and>
   gstEnabled mint_record \<and> sellPrice mint_record = parseFloat ''0.3'' \<and>
   parse_unsigned ''0.3'' = Some (3 / 10) \<and> parse_unsigned ''0.05'' = Some (5 / 100) \<and>
   spec_round2 (3 / 10 * (5 / 100)) = 2 / 100 \<and>
   spec_round2_even (3 / 10 * (5 / 100)) = 2 / 100 \<and>
   fl (spec_round2 (3 / 10 * (5 / 100))) = parseFloat ''0.02'' \<and>
   gstAmount mint_record = parseFloat ''0.01'' \<and>
   parseFloat ''0.01'' \<noteq> parseFloat ''0.02''"
proof -
  have "spec_round2 (3 / 10 * (5 / 100)) = 2 / 100"
    "spec_round2_even (3 / 10 * (5 / 100)) = 2 / 100"
    by code_simp+
  then show ?thesis
    using post_cheap_item mint_numerics by (simp add: mint_record_def)
qed

text \<open>
  C1, amended. Whenever \<^verbatim>\<open>POST /products\<close> answers 201 or \<^verbatim>\<open>PUT /products/:id\<close> answers
  200, the record \<open>p\<close> of the answer is stored, its \<open>sellPrice\<close> is a double that is not
  negative (or \<open>+\<infinity>\<close>), and its derived fields are computed in double arithmetic from
  it: \<open>gstPercentage\<close> is 5 when \<open>gstEnabled\<close> and 0 otherwise; \<open>gstAmount\<close> is 0 when not
  \<open>gstEnabled\<close>, and otherwise, with \<open>x\<close> the double product of \<open>sellPrice\<close> and the double
  0.05, the double nearest to the Round2 of the specification (two fraction digits, half
  up) of the exact value of \<open>x\<close> when \<open>x < 10\<^sup>2\<^sup>1\<close>, and \<open>x\<close> itself when it is larger or
  \<open>+\<infinity>\<close>; \<open>totalPrice\<close> is obtained in the same way from the double sum of \<open>sellPrice\<close>
  and \<open>gstAmount\<close>.
\<close>

theorem derived_fields_in_doubles:
  assumes "post_products env req w = (Json 201 (Product msg (Some p)), w') \<or>
           put_products cast env productId req w = (Json 200 (Product msg (Some p)), w')"
  shows "p \<in> set (products w') \<and>
         nonneg (sellPrice p) \<and>
         gstPercentage p = (if gstEnabled p then Fin 5 else Fin 0) \<and>
         (\<not> gstEnabled p \<longrightarrow> gstAmount p = Fin 0) \<and>
         (gstEnabled p \<longrightarrow> nonneg (num_mul (sellPrice p) five_percent)) \<and>
         (gstEnabled p \<longrightarrow> (\<forall>x. num_mul (sellPrice p) five_percent = Fin x \<longrightarrow>
            0 \<le> x \<and> gstAmount p = (if x < 10 ^ 21 then fl (spec_round2 x) else Fin x))) \<and>
         (gstEnabled p \<longrightarrow> num_mul (sellPrice p) five_percent = PInf \<longrightarrow> gstAmount p = PInf) \<and>
         nonneg (num_add (sellPrice p) (gstAmount p)) \<and>
         (\<forall>y. num_add (sellPrice p) (gstAmount p) = Fin y \<longrightarrow>
            0 \<le> y \<and> totalPrice p = (if y < 10 ^ 21 then fl (spec_round2 y) else Fin y)) \<and>
         (num_add (sellPrice p) (gstAmount p) = PInf \<longrightarrow> totalPrice p = PInf)"
  using assms
proof
  assume a: "post_products env req w = (Json 201 (Product msg (Some p)), w')"
  from a obtain upl imageUrl w1 p' where
    ok: "fst (validateProduct (body req)) = []"
    and p': "p' = created_record env (snd (validateProduct (body req))) imageUrl w1"
    and r: "Product msg (Some p) = Product ''Product created successfully'' (Some p')"
    and ps: "products w' = products w @ [p']"
    by (rule post_products_201)
  from r have pp: "p = p'" by simp
  have sp: "nonneg (sellPrice p)"
    using validated_price[OF ok] by (simp add: pp p' created_record_def)
  have d: "gstPercentage p = (if gstEnabled p then Fin 5 else Fin 0)"
    "gstAmount p =
      (if gstEnabled p then round2 (num_mul (sellPrice p) five_percent) else Fin 0)"
    "totalPrice p = round2 (num_add (sellPrice p) (gstAmount p))"
    unfolding pp p' by (rule created_record_derived)+
  have stored: "p \<in> set (products w')"
    using ps by (simp add: pp)
  show ?thesis
    by (rule conjI[OF stored priced_record[OF sp d]])
next
  assume a: "put_products cast env productId req w = (Json 200 (Product msg (Some p)), w')"
  from a obtain upl old imageUrl w1 p' where
    ok: "fst (validateProduct (body req)) = []"
    and old: "findById cast productId w = Inr (Some old)"
    and p': "p' = updated_record old (snd (validateProduct (body req))) imageUrl"
    and r: "Product msg (Some p) = Product ''Product updated successfully'' (Some p')"
    and ps: "products w' = map (\<lambda>x. if oid x = oid p' then p' else x) (products w)"
    by (rule put_products_200)
  from r have pp: "p = p'" by simp
  have "findById cast productId w' = Inr (Some p')"
    using findById_after_update[OF old _ ps] by (simp add: p' updated_record_frame)
  then have stored: "p' \<in> set (products w')"
    by (rule findById_Some)
  have sp: "nonneg (sellPrice p)"
    using validated_price[OF ok] by (simp add: pp p' updated_record_def)
  have d: "gstPercentage p = (if gstEnabled p then Fin 5 else Fin 0)"
    "gstAmount p =
      (if gstEnabled p then round2 (num_mul (sellPrice p) five_percent) else Fin 0)"
    "totalPrice p = round2 (num_add (sellPrice p) (gstAmount p))"
    unfolding pp p' by (rule updated_record_derived)+
  from stored have "p \<in> set (products w')"
    by (simp add: pp)
  then show ?thesis
    by (rule conjI[OF _ priced_record[OF sp d]])
qed

theorem derived_fields_in_doubles_witness:
  "post_products env_a tea_with_image empty_world =
     (Json 201 (Product ''Product created successfully''
        (Some (tea_record 0 ''42'' (Some url_a) 1000))), world_a) \<and>
   tea_record 0 ''42'' (Some url_a) 1000 \<in> set (products world_a) \<and>
   gstEnabled (tea_record 0 ''42'' (Some url_a) 1000) \<and>
   gstPercentage (tea_record 0 ''42'' (Some url_a) 1000) = Fin 5 \<and>
   num_mul (sellPrice (tea_record 0 ''42'' (Some url_a) 1000)) five_percent = Fin 1 \<and>
   gstAmount (tea_record 0 ''42'' (Some url_a) 1000) = fl (spec_round2 1) \<and>
   num_add (sellPrice (tea_record 0 ''42'' (Some url_a) 1000))
     (gstAmount (tea_record 0 ''42'' (Some url_a) 1000)) = Fin 21 \<and>
   totalPrice (tea_record 0 ''42'' (Some url_a) 1000) = fl (spec_round2 21) \<and>
   put_products hex_id env_b id_0 update_rename world_a =
     (Json 200 (Product ''Product updated successfully'' (Some updated_tea)), world_b) \<and>
   updated_tea \<in> set (products world_b) \<and> \<not> gstEnabled updated_tea \<and>
   gstPercentage updated_tea = Fin 0 \<and> gstAmount updated_tea = Fin 0 \<and>
   num_add (sellPrice updated_tea) (gstAmount updated_tea) = Fin 20 \<and>
   totalPrice updated_tea = fl (spec_round2 20)"
proof -
  let ?t = "tea_record 0 ''42'' (Some url_a) 1000"
  have t: "gstEnabled ?t" "num_mul (sellPrice ?t) five_percent = Fin 1"
    "num_add (sellPrice ?t) (gstAmount ?t) = Fin 21" "(1::rat) < 10 ^ 21" "(21::rat) < 10 ^ 21"
    by (simp_all add: tea_record_def tea_numerics del: num_add.simps(1) num_mul.simps(1))
  have u: "\<not> gstEnabled updated_tea"
    "num_add (sellPrice updated_tea) (gstAmount updated_tea) = Fin 20" "(20::rat) < 10 ^ 21"
    by (simp_all add: updated_tea_def tea_numerics del: num_add.simps(1) num_mul.simps(1))
  from derived_fields_in_doubles[where env = env_a and req = tea_with_image
      and w = empty_world and msg = "''Product created successfully''" and p = ?t
      and w' = world_a, OF disjI1, OF post_tea_with_image] t
  have a: "?t \<in> set (products world_a) \<and> gstPercentage ?t = Fin 5 \<and>
      gstAmount ?t = fl (spec_round2 1) \<and> totalPrice ?t = fl (spec_round2 21)"
    by simp
  from derived_fields_in_doubles[where cast = hex_id and env = env_b and productId = id_0
      and req = update_rename and w = world_a and msg = "''Product updated successfully''"
      and p = updated_tea and w' = world_b, OF disjI2, OF put_update_rename] u
  have b: "updated_tea \<in> set (products world_b) \<and> gstPercentage updated_tea = Fin 0 \<and>
      gstAmount updated_tea = Fin 0 \<and> totalPrice updated_tea = fl (spec_round2 20)"
    by simp
  from a b t u post_tea_with_image put_update_rename show ?thesis by simp
qed

text \<open>
  C2. The create request with the form fields \<^verbatim>\<open>itemName=Tea\<close>, \<^verbatim>\<open>sellPrice=20\<close>,
  \<^verbatim>\<open>type=Beverage\<close>, \<^verbatim>\<open>gstEnabled=true\<close> does not succeed: in every state it is
  answered 400 with the one validation error \<open>Invalid product type\<close> and nothing is
  stored, although \<open>Beverage\<close> is a value of the schema's enumeration for \<open>type\<close>. The
  same request with \<^verbatim>\<open>type=Veg\<close> on the empty store is answered 201, and its record
  has \<open>gstPercentage = 5\<close>, \<open>gstAmount = 1\<close> and \<open>totalPrice = 21\<close>.
\<close>

theorem tea_beverage_rejected:
  "post_products env tea_beverage w =
     (Json 400 (Errors [(''type'', ''Invalid product type'')]), w) \<and>
   ''Beverage'' \<in> set type_enum \<and>
   post_products env_a tea_veg empty_world =
     (Json 201 (Product ''Product created successfully'' (Some (tea_record 0 ''42'' None 1000))),
      world_1) \<and>
   gstPercentage (tea_record 0 ''42'' None 1000) = Fin 5 \<and>
   gstAmount (tea_record 0 ''42'' None 1000) = Fin 1 \<and>
   totalPrice (tea_record 0 ''42'' None 1000) = Fin 21"
proof -
  have "post_products env tea_beverage w =
          (Json 400 (Errors (fst (validateProduct (body tea_beverage)))), w)"
    by (rule post_products_invalid[where upl = None])
       (simp_all add: tea_beverage_def upload_single_examples validate_tea_beverage)
  then show ?thesis
    by (simp add: tea_beverage_def validate_tea_beverage type_enum_def post_tea_veg tea_record_def)
qed

lemma blank_name_error:
  assumes "\<forall>c\<in>set (field b ''itemName''). is_space c"
  shows "(''itemName'', ''Item name is required'') \<in> set (fst (validateProduct b))"
  using trim_blank[OF assms] by (simp add: validateProduct_def Let_def)

text \<open>
  C3, as stated, fails: the update route runs the same \<^verbatim>\<open>validateProduct\<close> chain as the
  create route. An update of the stored product 0 whose body has a valid \<open>sellPrice\<close>
  and \<open>type\<close> and no \<open>itemName\<close> is answered 400 with the one validation error
  \<open>Item name is required\<close>, and the store is unchanged.
\<close>

theorem update_without_itemName_rejected:
  "no_name_body ''itemName'' = None \<and>
   findById hex_id id_0 world_a = Inr (Some (tea_record 0 ''42'' (Some url_a) 1000)) \<and>
   put_products hex_id env_b id_0 update_no_name world_a =
     (Json 400 (Errors [(''itemName'', ''Item name is required'')]), world_a)"
  by (simp add: put_update_no_name findById_world_a no_name_body_def)

text \<open>
  C3, amended. On update \<open>itemName\<close> is required as on create: every update request
  that passes the upload middleware and whose \<open>itemName\<close> is absent, empty or only white
  space is answered 400 with a list of validation errors that names \<open>itemName\<close>, and the
  state is unchanged.
\<close>

theorem update_requires_itemName:
  assumes "upload_single (image_part req) = Inr upl"
    and "\<forall>c\<in>set (field (body req) ''itemName''). is_space c"
  shows "\<exists>errors. put_products cast env productId req w = (Json 400 (Errors errors), w) \<and>
           (''itemName'', ''Item name is required'') \<in> set errors"
proof -
  note e = blank_name_error[OF assms(2)]
  then have "fst (validateProduct (body req)) \<noteq> []" by auto
  from put_products_invalid[OF assms(1) this] e show ?thesis by blast
qed

theorem update_requires_itemName_witness:
  "upload_single (image_part update_no_name) = Inr None \<and>
   body update_no_name ''itemName'' = None \<and>
   field (body update_no_name) ''itemName'' = [] \<and>
   (\<exists>errors. put_products hex_id env_b id_0 update_no_name world_a =
        (Json 400 (Errors errors), world_a) \<and>
      (''itemName'', ''Item name is required'') \<in> set errors) \<and>
   upload_single (image_part nbsp_name) = Inr None \<and>
   field (body nbsp_name) ''itemName'' = [CHR 0xA0] \<and>
   (\<exists>errors. put_products hex_id env_b id_0 nbsp_name world_a =
        (Json 400 (Errors errors), world_a) \<and>
      (''itemName'', ''Item name is required'') \<in> set errors)"
proof -
  have a: "upload_single (image_part update_no_name) = Inr None"
    by (simp add: update_no_name_def upload_single_examples)
  have n: "body update_no_name ''itemName'' = None"
    by (simp add: update_no_name_def no_name_body_def)
  then have e: "field (body update_no_name) ''itemName'' = []"
    by (simp add: field_def)
  then have b: "\<forall>c\<in>set (field (body update_no_name) ''itemName''). is_space c"
    by simp
  have a': "upload_single (image_part nbsp_name) = Inr None"
    by (simp add: nbsp_name_def upload_single_examples)
  have e': "field (body nbsp_name) ''itemName'' = [CHR 0xA0]"
    by (simp add: nbsp_name_def nbsp_body_def field_def)
  then have b': "\<forall>c\<in>set (field (body nbsp_name) ''itemName''). is_space c"
    by (simp add: is_space_def)
  from update_requires_itemName[OF a b, where cast = hex_id and env = env_b
      and productId = id_0 and w = world_a]
    update_requires_itemName[OF a' b', where cast = hex_id and env = env_b
      and productId = id_0 and w = world_a]
    a n e a' e'
  show ?thesis by blast
qed

text \<open>
  C4. When a create request with an accepted image and a valid body meets a failing
  upload, the route answers 400 \<open>Failed to create product\<close> with the details
  \<open>Image upload failed\<close>; the state differs only by the logged upload attempt, so the
  collection is unchanged and no record is persisted.
\<close>

theorem create_upload_failure:
  assumes "upload_single (image_part req) = Inr (Some f)"
    and "fst (validateProduct (body req)) = []"
    and "upload_response env = None"
  shows "post_products env req w =
           (Json 400 (ErrorDetails ''Failed to create product'' ''Image upload failed''),
            w\<lparr>host_calls := host_calls w @ [Upload f]\<rparr>) \<and>
         products (snd (post_products env req w)) = products w"
proof -
  have "uploadToCloudinary env (Some f) w =
          (Inl ''Image upload failed'', w\<lparr>host_calls := host_calls w @ [Upload f]\<rparr>)"
    using assms(3) by (simp add: upload_Some)
  from create_product_failed[OF this] post_products_handled[OF assms(1,2)]
  show ?thesis by simp
qed

theorem create_upload_failure_witness:
  "upload_single (image_part tea_with_image) = Inr (Some png_file) \<and>
   fst (validateProduct (body tea_with_image)) = [] \<and>
   upload_response env_c = None \<and>
   post_products env_c tea_with_image world_a =
     (Json 400 (ErrorDetails ''Failed to create product'' ''Image upload failed''),
      world_a\<lparr>host_calls := [Upload png_file, Upload png_file]\<rparr>) \<and>
   products (snd (post_products env_c tea_with_image world_a)) = products world_a"
proof -
  have a: "upload_single (image_part tea_with_image) = Inr (Some png_file)"
    by (simp add: tea_with_image_def upload_single_examples)
  have b: "fst (validateProduct (body tea_with_image)) = []"
    by (simp add: tea_with_image_def validate_tea)
  have c: "upload_response env_c = None"
    by (simp add: env_c_def)
  from create_upload_failure[OF a b c, of world_a] a b c show ?thesis
    by (simp add: world_a_def)
qed

lemma schema_updated_record:
  assumes ok: "fst (validateProduct b0) = []" and old: "schema_error old = None"
  shows "schema_error (updated_record old (snd (validateProduct b0)) img) = None"
proof -
  let ?b = "snd (validateProduct b0)"
  have name: "itemName old \<noteq> []"
    using old by (auto simp: schema_error_def split: if_splits)
  have "field ?b ''sellPrice'' = field b0 ''sellPrice''"
    by (simp add: validate_body field_def)
  then have "parseFloat (field ?b ''sellPrice'') \<noteq> NaN"
    using validate_ok(2)[OF ok] by (auto dest!: isFloat_parse num_ge_not_NaN)
  moreover have "?b ''type'' = Some ''Veg'' \<or> ?b ''type'' = Some ''Non-Veg''"
    using validate_ok(3)[OF ok] by (simp add: validate_body)
  ultimately show ?thesis
    using name by (auto simp: schema_error_def updated_record_def type_enum_def)
qed

text \<open>
  C5. In a reachable state, an update of an existing product with an accepted new image
  and a valid body whose upload succeeds with \<open>url\<close> is answered 200 whatever the asset
  host answers to the removal of the old asset (\<open>d\<close>): the answered record is the
  stored one, its image is \<open>url\<close>, and the calls made to the host are the removal of
  the old asset, when the record had a truthy image, followed by the upload.
\<close>

theorem update_replaces_image:
  assumes "reachable w" and "findById cast productId w = Inr (Some old)"
    and "upload_single (image_part req) = Inr (Some f)"
    and "fst (validateProduct (body req)) = []"
    and "upload_response env = Some url"
  shows "\<exists>p w'. put_products cast (env\<lparr>destroy_response := d\<rparr>) productId req w =
                  (Json 200 (Product ''Product updated successfully'' (Some p)), w') \<and>
           image_url p = Some url \<and> findById cast productId w' = Inr (Some p) \<and>
           host_calls w' = host_calls w @
             (case image_url old of None \<Rightarrow> []
              | Some u \<Rightarrow> if u = [] then [] else [Destroy (''products/'' @ publicId u)]) @
             [Upload f]"
proof -
  let ?env = "env\<lparr>destroy_response := d\<rparr>"
  let ?b = "snd (validateProduct (body req))"
  let ?w0 = "destroy_image ?env (image_url old) w"
  let ?w1 = "?w0\<lparr>host_calls := host_calls ?w0 @ [Upload f]\<rparr>"
  let ?p = "updated_record old ?b (Some url)"
  let ?w2 = "?w1\<lparr>products := map (\<lambda>q. if oid q = oid ?p then ?p else q) (products ?w1)\<rparr>"
  have step: "image_step ?env old (Some f) w = (Inr (Some url), ?w1)"
    using assms(5) by (simp add: image_step_def upload_Some)
  have "old \<in> set (products w)"
    using assms(2) by (rule findById_Some)
  with reachable_valid[OF assms(1)] have "schema_error old = None" by blast
  from schema_updated_record[OF assms(4) this] have sch: "schema_error ?p = None" .
  have "put_products cast ?env productId req w = update_product cast ?env productId ?b (Some f) w"
    by (rule put_products_handled[OF assms(3,4)])
  also have "\<dots> = (Json 200 (Product ''Product updated successfully'' (Some ?p)), ?w2)"
    by (simp add: update_product_eq[OF assms(2) step] save_existing_ok[OF sch])
  finally have res: "put_products cast ?env productId req w =
      (Json 200 (Product ''Product updated successfully'' (Some ?p)), ?w2)" .
  have "products ?w2 = map (\<lambda>q. if oid q = oid ?p then ?p else q) (products w)"
    by (simp add: destroy_image_frame)
  from findById_after_update[OF assms(2) _ this]
  have found: "findById cast productId ?w2 = Inr (Some ?p)"
    by (simp add: updated_record_frame)
  have calls: "host_calls ?w2 = host_calls w @
             (case image_url old of None \<Rightarrow> []
              | Some u \<Rightarrow> if u = [] then [] else [Destroy (''products/'' @ publicId u)]) @
             [Upload f]"
    by (simp add: destroy_image_frame)
  from res found calls show ?thesis
    by (intro exI[of _ ?p] exI[of _ ?w2]) (simp add: updated_record_frame)
qed

lemma reachable_world_a: "reachable world_a"
  using reachable.post[OF reachable.init, of env_a tea_with_image]
  by (simp add: post_tea_with_image)

theorem update_replaces_image_witness:
  "reachable world_a \<and> findById hex_id id_0 world_a = Inr (Some (tea_record 0 ''42'' (Some url_a) 1000)) \<and>
   upload_single (image_part update_rename) = Inr (Some png_file) \<and>
   fst (validateProduct (body update_rename)) = [] \<and>
   upload_response env_b = Some url_b \<and>
   (\<forall>d. \<exists>p w'. put_products hex_id (env_b\<lparr>destroy_response := d\<rparr>) id_0 update_rename world_a =
                  (Json 200 (Product ''Product updated successfully'' (Some p)), w') \<and>
           image_url p = Some url_b \<and> findById hex_id id_0 w' = Inr (Some p) \<and>
           host_calls w' = [Upload png_file, Destroy ''products/tea'', Upload png_file])"
proof -
  have a: "upload_single (image_part update_rename) = Inr (Some png_file)"
    by (simp add: update_rename_def upload_single_examples)
  have b: "fst (validateProduct (body update_rename)) = []"
    by (simp add: update_rename_def validate_rename_body)
  have c: "upload_response env_b = Some url_b"
    by (simp add: env_b_def)
  have calls: "host_calls world_a @
             (case image_url (tea_record 0 ''42'' (Some url_a) 1000) of None \<Rightarrow> []
              | Some u \<Rightarrow> if u = [] then [] else [Destroy (''products/'' @ publicId u)]) @
             [Upload png_file] = [Upload png_file, Destroy ''products/tea'', Upload png_file]"
    by (simp add: world_a_def tea_record_sel url_a_truthy publicId_url_a)
  from update_replaces_image[OF reachable_world_a findById_world_a(1) a b c]
  have "\<forall>d. \<exists>p w'. put_products hex_id (env_b\<lparr>destroy_response := d\<rparr>) id_0 update_rename world_a =
                  (Json 200 (Product ''Product updated successfully'' (Some p)), w') \<and>
           image_url p = Some url_b \<and> findById hex_id id_0 w' = Inr (Some p) \<and>
           host_calls w' = [Upload png_file, Destroy ''products/tea'', Upload png_file]"
    unfolding calls by blast
  with reachable_world_a findById_world_a(1) a b c show ?thesis by blast
qed

text \<open>
  C6, as stated, fails: the upload middleware runs before the validators. A create request
  with a blank \<open>itemName\<close> and a text file attached is not answered with a validation
  error; the middleware hands \<open>Only image files are allowed\<close> to the error handler.
\<close>

theorem blank_name_with_rejected_file:
  "field (body blank_name_with_text) ''itemName'' = ''   '' \<and>
   image_part blank_name_with_text = Some text_file \<and>
   post_products env_a blank_name_with_text world_a =
     (Next ''Only image files are allowed'', world_a)"
  by (simp add: post_blank_with_text)
     (simp add: blank_name_with_text_def blank_body_def field_def)

text \<open>
  C6, amended. A create request whose \<open>itemName\<close> is absent, empty or made of white space
  only persists nothing: the state after the route is the state before, so no record is
  added and no call to the asset host is made. It fails with a list of validation errors
  that names \<open>itemName\<close> (400) whenever the upload middleware passes the request on, and
  with the middleware's own error when that refuses the attached file.
\<close>

theorem create_blank_name_rejected:
  assumes "\<forall>c\<in>set (field (body req) ''itemName''). is_space c"
  shows "snd (post_products env req w) = w \<and>
         (\<forall>upl. upload_single (image_part req) = Inr upl \<longrightarrow>
            (\<exists>errors. fst (post_products env req w) = Json 400 (Errors errors) \<and>
               (''itemName'', ''Item name is required'') \<in> set errors)) \<and>
         (\<forall>err. upload_single (image_part req) = Inl err \<longrightarrow>
            fst (post_products env req w) = Next err)"
proof -
  note e = blank_name_error[OF assms]
  then have ne: "fst (validateProduct (body req)) \<noteq> []" by auto
  show ?thesis
  proof (cases "upload_single (image_part req)")
    case (Inl err)
    from post_products_rejected[OF this] Inl show ?thesis by simp
  next
    case (Inr upl)
    from post_products_invalid[OF this ne] Inr e show ?thesis by simp
  qed
qed

theorem create_blank_name_rejected_witness:
  "field (body blank_name) ''itemName'' = ''   '' \<and>
   list_all is_space (field (body blank_name) ''itemName'') \<and>
   upload_single (image_part blank_name) = Inr None \<and>
   post_products env_a blank_name world_a =
     (Json 400 (Errors [(''itemName'', ''Item name is required'')]), world_a) \<and>
   field (body nbsp_name) ''itemName'' = [CHR 0xA0] \<and>
   upload_single (image_part nbsp_name) = Inr None \<and>
   post_products env_a nbsp_name world_a =
     (Json 400 (Errors [(''itemName'', ''Item name is required'')]), world_a) \<and>
   upload_single (image_part blank_name_with_text) = Inl ''Only image files are allowed'' \<and>
   post_products env_a blank_name_with_text world_a =
     (Next ''Only image files are allowed'', world_a)"
proof -
  have n: "field (body blank_name) ''itemName'' = ''   ''"
    by (simp add: blank_name_def blank_body_def field_def)
  then have l: "list_all is_space (field (body blank_name) ''itemName'')"
    by (simp add: is_space_def)
  then have a: "\<forall>c\<in>set (field (body blank_name) ''itemName''). is_space c"
    by (simp add: list_all_iff)
  have b: "upload_single (image_part blank_name) = Inr None"
    by (simp add: blank_name_def upload_single_examples)
  have c: "fst (validateProduct (body blank_name)) = [(''itemName'', ''Item name is required'')]"
    by (simp add: blank_name_def validate_blank_body)
  have n': "field (body nbsp_name) ''itemName'' = [CHR 0xA0]"
    by (simp add: nbsp_name_def nbsp_body_def field_def)
  then have a': "\<forall>c\<in>set (field (body nbsp_name) ''itemName''). is_space c"
    by (simp add: is_space_def)
  have b': "upload_single (image_part nbsp_name) = Inr None"
    by (simp add: nbsp_name_def upload_single_examples)
  have c': "fst (validateProduct (body nbsp_name)) = [(''itemName'', ''Item name is required'')]"
    by (simp add: nbsp_name_def validate_nbsp_body)
  have a'': "\<forall>c\<in>set (field (body blank_name_with_text) ''itemName''). is_space c"
    by (simp add: blank_name_with_text_def blank_body_def field_def is_space_def)
  have b'': "upload_single (image_part blank_name_with_text) =
      Inl ''Only image files are allowed''"
    by (simp add: blank_name_with_text_def upload_single_examples)
  have "post_products env_a blank_name world_a =
      (Json 400 (Errors [(''itemName'', ''Item name is required'')]), world_a)"
    using post_products_invalid[OF b, of env_a world_a] c by simp
  moreover have "post_products env_a nbsp_name world_a =
      (Json 400 (Errors [(''itemName'', ''Item name is required'')]), world_a)"
    using post_products_invalid[OF b', of env_a world_a] c' by simp
  moreover have "post_products env_a blank_name_with_text world_a =
      (Next ''Only image files are allowed'', world_a)"
    using create_blank_name_rejected[OF a'', of env_a world_a] b''
    by (simp add: prod_eq_iff)
  moreover note create_blank_name_rejected[OF a, of env_a world_a]
    create_blank_name_rejected[OF a', of env_a world_a]
  ultimately show ?thesis
    using n l b n' b' b'' by simp
qed

lemma find_sorted_desc:
  "sorted_wrt (\<lambda>a b. createdAt b \<le> createdAt a) (find_sorted w)"
proof -
  have "sorted (map (\<lambda>p. - int (createdAt p)) (find_sorted w))"
    by (simp add: find_sorted_def)
  then have "sorted_wrt (\<lambda>a b. - int (createdAt a) \<le> - int (createdAt b)) (find_sorted w)"
    by (simp add: sorted_map)
  then show ?thesis
    by (rule sorted_wrt_mono_rel[rotated]) simp
qed

lemma post_products_appends:
  assumes "post_products env req w = (Json 201 (Product msg (Some p)), w')"
  shows "products w' = products w @ [p]" and "createdAt p = now env"
proof -
  from assms obtain upl imageUrl w1 p' where
    p': "p' = created_record env (snd (validateProduct (body req))) imageUrl w1"
    and r: "Product msg (Some p) = Product ''Product created successfully'' (Some p')"
    and ps: "products w' = products w @ [p']"
    by (rule post_products_201)
  from r have "p = p'" by simp
  with p' ps show "products w' = products w @ [p]" and "createdAt p = now env"
    by (simp_all add: created_record_def)
qed

text \<open>
  C7. \<^verbatim>\<open>GET /products\<close> answers 200 with the stored records ordered by \<open>createdAt\<close>
  descending (a rearrangement of the collection, which it leaves unchanged); and after
  three successful creates on an empty collection at strictly increasing times, of the
  records \<open>a\<close>, \<open>b\<close>, \<open>c\<close> in this order, the list answered is \<open>c, b, a\<close>.
\<close>

theorem list_newest_first:
  "sorted_wrt (\<lambda>a b. createdAt b \<le> createdAt a) (find_sorted w) \<and>
   mset (find_sorted w) = mset (products w) \<and>
   get_products w = (Json 200 (Products (find_sorted w)), w) \<and>
   (products w0 = [] \<longrightarrow>
    post_products e1 r1 w0 = (Json 201 (Product m1 (Some a)), w1) \<longrightarrow>
    post_products e2 r2 w1 = (Json 201 (Product m2 (Some b)), w2) \<longrightarrow>
    post_products e3 r3 w2 = (Json 201 (Product m3 (Some c)), w3) \<longrightarrow>
    now e1 < now e2 \<longrightarrow> now e2 < now e3 \<longrightarrow>
    get_products w3 = (Json 200 (Products [c, b, a]), w3))"
proof (intro conjI impI)
  show "sorted_wrt (\<lambda>a b. createdAt b \<le> createdAt a) (find_sorted w)"
    by (rule find_sorted_desc)
  show "mset (find_sorted w) = mset (products w)"
    by (simp add: find_sorted_def)
  show "get_products w = (Json 200 (Products (find_sorted w)), w)"
    by (simp add: get_products_def)
next
  assume e: "products w0 = []"
    and p1: "post_products e1 r1 w0 = (Json 201 (Product m1 (Some a)), w1)"
    and p2: "post_products e2 r2 w1 = (Json 201 (Product m2 (Some b)), w2)"
    and p3: "post_products e3 r3 w2 = (Json 201 (Product m3 (Some c)), w3)"
    and t: "now e1 < now e2" "now e2 < now e3"
  have "products w3 = [a, b, c]"
    using e post_products_appends(1)[OF p1] post_products_appends(1)[OF p2]
      post_products_appends(1)[OF p3] by simp
  moreover have "createdAt a < createdAt b" "createdAt b < createdAt c"
    using t post_products_appends(2)[OF p1] post_products_appends(2)[OF p2]
      post_products_appends(2)[OF p3] by simp_all
  ultimately have "find_sorted w3 = [c, b, a]"
    by (simp add: find_sorted_def)
  then show "get_products w3 = (Json 200 (Products [c, b, a]), w3)"
    by (simp add: get_products_def)
qed

theorem list_newest_first_witness:
  "products empty_world = [] \<and>
   post_products env_a tea_veg empty_world =
     (Json 201 (Product ''Product created successfully'' (Some (tea_record 0 ''42'' None 1000))),
      world_1) \<and>
   post_products env_b tea_veg world_1 =
     (Json 201 (Product ''Product created successfully'' (Some (tea_record 1 ''43'' None 2000))),
      world_2) \<and>
   post_products env_c tea_veg world_2 =
     (Json 201 (Product ''Product created successfully'' (Some (tea_record 2 ''44'' None 3000))),
      world_3) \<and>
   now env_a < now env_b \<and> now env_b < now env_c \<and>
   get_products world_3 =
     (Json 200 (Products [tea_record 2 ''44'' None 3000, tea_record 1 ''43'' None 2000,
                          tea_record 0 ''42'' None 1000]), world_3)"
proof -
  have e: "products empty_world = []"
    by (simp add: empty_world_def)
  have t: "now env_a < now env_b" "now env_b < now env_c"
    by (simp_all add: env_a_def env_b_def env_c_def)
  from list_newest_first[where w = world_3 and ?w0.0 = empty_world
      and ?e1.0 = env_a and ?r1.0 = tea_veg and ?m1.0 = "''Product created successfully''"
      and a = "tea_record 0 ''42'' None 1000" and ?w1.0 = world_1
      and ?e2.0 = env_b and ?r2.0 = tea_veg and ?m2.0 = "''Product created successfully''"
      and b = "tea_record 1 ''43'' None 2000" and ?w2.0 = world_2
      and ?e3.0 = env_c and ?r3.0 = tea_veg and ?m3.0 = "''Product created successfully''"
      and c = "tea_record 2 ''44'' None 3000" and ?w3.0 = world_3]
    e post_tea_veg t
  show ?thesis by blast
qed

text \<open>
  C8, as stated, fails for an id that is not in the store because it is no \<^verbatim>\<open>ObjectId\<close>
  at all: \<^verbatim>\<open>DELETE /products/7\<close> makes \<^verbatim>\<open>findById\<close> throw its \<^verbatim>\<open>CastError\<close>, and the
  \<^verbatim>\<open>catch\<close> of the handler answers 500 \<open>Failed to delete product\<close>, not 404.
\<close>

theorem delete_uncastable_id_is_500:
  "hex_id ''7'' = None \<and>
   findById hex_id ''7'' world_a = Inl ''Cast to ObjectId failed'' \<and>
   delete_products hex_id env_a ''7'' world_a =
     (Json 500 (ErrorDetails ''Failed to delete product'' ''Cast to ObjectId failed''), world_a)"
  by (simp add: delete_products_def findById_world_a hex_id_examples)

text \<open>
  C8, amended. Deleting an id that no stored record has leaves the state unchanged (no
  record is removed and no call to the asset host is made) and fails: with 404
  \<open>Product not found\<close> when the driver casts the id to an \<^verbatim>\<open>ObjectId\<close>, and with 500
  \<open>Failed to delete product\<close> when it cannot cast it.
\<close>

theorem delete_absent_id:
  assumes "\<forall>p\<in>set (products w). cast productId \<noteq> Some (oid p)"
  shows "delete_products cast env productId w =
           (if cast productId = None
            then Json 500 (ErrorDetails ''Failed to delete product'' ''Cast to ObjectId failed'')
            else Json 404 (Error ''Product not found''), w)"
proof (cases "cast productId")
  case None
  then show ?thesis by (simp add: delete_products_def findById_def)
next
  case (Some i)
  have "find (\<lambda>p. oid p = i) (products w) = None"
  proof (cases "find (\<lambda>p. oid p = i) (products w)")
    case None
    then show ?thesis .
  next
    case found: (Some q)
    from find_Some_mem[OF found] assms Some show ?thesis by auto
  qed
  with Some show ?thesis by (simp add: delete_products_def findById_def)
qed

theorem delete_absent_id_witness:
  "hex_id id_7 = Some 7 \<and> map oid (products world_a) = [0] \<and>
   delete_products hex_id env_a id_7 world_a = (Json 404 (Error ''Product not found''), world_a) \<and>
   hex_id ''7'' = None \<and>
   delete_products hex_id env_a ''7'' world_a =
     (Json 500 (ErrorDetails ''Failed to delete product'' ''Cast to ObjectId failed''), world_a)"
proof -
  have ids: "map oid (products world_a) = [0]"
    by (simp add: world_a_def tea_record_sel)
  then have a: "\<forall>p\<in>set (products world_a). hex_id id_7 \<noteq> Some (oid p)"
    by (simp add: world_a_def hex_id_examples)
  from ids have b: "\<forall>p\<in>set (products world_a). hex_id ''7'' \<noteq> Some (oid p)"
    by (simp add: hex_id_examples)
  from delete_absent_id[where cast = hex_id and productId = id_7 and w = world_a
      and env = env_a, OF a]
    delete_absent_id[where cast = hex_id and productId = "''7''" and w = world_a
      and env = env_a, OF b] ids
  show ?thesis by (simp add: hex_id_examples)
qed

text \<open>
  C9. When \<^verbatim>\<open>PUT /products/:id\<close> answers 200 with a record, the record stored under the
  id before the update and the one stored after it have the same id, \<open>itemName\<close>,
  \<open>barcode\<close> and \<open>createdAt\<close>, whatever \<open>itemName\<close> the request body carries.
\<close>

theorem update_keeps_identity:
  assumes "put_products cast env productId req w = (Json 200 (Product msg (Some p)), w')"
  shows "\<exists>old. findById cast productId w = Inr (Some old) \<and>
           findById cast productId w' = Inr (Some p) \<and>
           oid p = oid old \<and> itemName p = itemName old \<and> barcode p = barcode old \<and>
           createdAt p = createdAt old"
proof -
  from assms obtain upl old imageUrl w1 p' where
    old: "findById cast productId w = Inr (Some old)"
    and p': "p' = updated_record old (snd (validateProduct (body req))) imageUrl"
    and r: "Product msg (Some p) = Product ''Product updated successfully'' (Some p')"
    and ps: "products w' = map (\<lambda>x. if oid x = oid p' then p' else x) (products w)"
    by (rule put_products_200)
  from r have pp: "p = p'" by simp
  have "findById cast productId w' = Inr (Some p)"
    using findById_after_update[OF old _ ps] by (simp add: pp p' updated_record_frame)
  with old show ?thesis
    by (simp add: pp p' updated_record_frame)
qed

theorem update_keeps_identity_witness:
  "put_products hex_id env_b id_0 update_rename world_a =
     (Json 200 (Product ''Product updated successfully'' (Some updated_tea)), world_b) \<and>
   body update_rename ''itemName'' = Some ''Coffee'' \<and>
   findById hex_id id_0 world_a = Inr (Some (tea_record 0 ''42'' (Some url_a) 1000)) \<and>
   findById hex_id id_0 world_b = Inr (Some updated_tea) \<and>
   oid updated_tea = 0 \<and> itemName updated_tea = ''Tea'' \<and> barcode updated_tea = ''42'' \<and>
   createdAt updated_tea = 1000"
  using update_keeps_identity[OF put_update_rename] put_update_rename findById_world_a(1)
  by (simp add: update_rename_def rename_body_def tea_record_sel updated_tea_def)

lemma upload_single_Some:
  "upload_single (Some f) =
     (if starts_with ''image/'' (mimetype f)
      then (if fileSize < length (buffer f) then Inl ''File too large'' else Inr (Some f))
      else Inl ''Only image files are allowed'')"
  by (simp add: upload_single_def fileFilter_def)

text \<open>
  C10. The upload middleware of both routes hands an attached file on exactly when its
  media type starts with \<open>image/\<close> and it has at most \<open>5 * 1024 * 1024\<close> bytes; any other
  attached file makes \<^verbatim>\<open>POST /products\<close> and \<^verbatim>\<open>PUT /products/:id\<close> hand an error to the
  error handler with the state unchanged, before validation and before the handler.
\<close>

theorem upload_gate:
  "(upload_single (Some f) = Inr (Some f) \<longleftrightarrow>
      starts_with ''image/'' (mimetype f) \<and> length (buffer f) \<le> 5 * 1024 * 1024) \<and>
   (image_part req = Some f \<longrightarrow>
    \<not> (starts_with ''image/'' (mimetype f) \<and> length (buffer f) \<le> 5 * 1024 * 1024) \<longrightarrow>
    (\<exists>err. post_products env req w = (Next err, w) \<and>
           put_products cast env productId req w = (Next err, w)))"
proof (intro conjI impI)
  show "upload_single (Some f) = Inr (Some f) \<longleftrightarrow>
      starts_with ''image/'' (mimetype f) \<and> length (buffer f) \<le> 5 * 1024 * 1024"
    by (simp add: upload_single_Some fileSize_def not_less)
next
  assume part: "image_part req = Some f"
    and bad: "\<not> (starts_with ''image/'' (mimetype f) \<and> length (buffer f) \<le> 5 * 1024 * 1024)"
  then have "upload_single (image_part req) =
      (if starts_with ''image/'' (mimetype f) then Inl ''File too large''
       else Inl ''Only image files are allowed'')"
    by (simp add: upload_single_Some fileSize_def not_le)
  then obtain err where "upload_single (image_part req) = Inl err"
    by (cases "starts_with ''image/'' (mimetype f)") simp_all
  from post_products_rejected[OF this] put_products_rejected[OF this]
  show "\<exists>err. post_products env req w = (Next err, w) \<and>
           put_products cast env productId req w = (Next err, w)"
    by blast
qed

theorem upload_gate_witness:
  "image_part tea_with_text = Some text_file \<and>
   \<not> (starts_with ''image/'' (mimetype text_file) \<and> length (buffer text_file) \<le> 5 * 1024 * 1024) \<and>
   (\<exists>err. post_products env_a tea_with_text world_a = (Next err, world_a) \<and>
          put_products hex_id env_a id_0 tea_with_text world_a = (Next err, world_a)) \<and>
   image_part tea_with_big_png = Some big_png \<and>
   \<not> (starts_with ''image/'' (mimetype big_png) \<and> length (buffer big_png) \<le> 5 * 1024 * 1024) \<and>
   (\<exists>err. post_products env_a tea_with_big_png world_a = (Next err, world_a) \<and>
          put_products hex_id env_a id_0 tea_with_big_png world_a = (Next err, world_a)) \<and>
   upload_single (Some png_file) = Inr (Some png_file)"
proof -
  have a: "image_part tea_with_text = Some text_file"
    by (simp add: tea_with_text_def)
  have b: "\<not> (starts_with ''image/'' (mimetype text_file) \<and>
              length (buffer text_file) \<le> 5 * 1024 * 1024)"
    by (simp add: text_file_def starts_with_def)
  have c: "image_part tea_with_big_png = Some big_png"
    by (simp add: tea_with_big_png_def)
  have d: "\<not> (starts_with ''image/'' (mimetype big_png) \<and>
              length (buffer big_png) \<le> 5 * 1024 * 1024)"
    by (simp add: big_png_def fileSize_def)
  have e: "starts_with ''image/'' (mimetype png_file) \<and> length (buffer png_file) \<le> 5 * 1024 * 1024"
    by (simp add: png_file_def starts_with_def)
  from upload_gate[where f = text_file and req = tea_with_text and env = env_a
      and w = world_a and cast = hex_id and productId = id_0]
    upload_gate[where f = big_png and req = tea_with_big_png and env = env_a
      and w = world_a and cast = hex_id and productId = id_0]
    upload_gate[where f = png_file] a b c d e
  show ?thesis by blast
qed

end
